theory Spec2Isabelle
  imports Main "HOL-Library.Sublist" "HOL-Library.Multiset"
begin

section \<open>JavaScript strings and arrays\<close>

text \<open>
  Strings are lists of characters. The model covers ASCII text: \<open>toLowerCase\<close> maps
  the letters A to Z to a to z and leaves every other character alone, and the white space
  that \<open>trim\<close> removes is tab, line feed, vertical tab, form feed, carriage return and
  space. \<open>length\<close> of a string is the length of the list.
\<close>

definition upperLetters :: string where
  "upperLetters = ''ABCDEFGHIJKLMNOPQRSTUVWXYZ''"

definition lowerLetters :: string where
  "lowerLetters = ''abcdefghijklmnopqrstuvwxyz''"

definition lowerChar :: "char \<Rightarrow> char" where
  "lowerChar c = (case map_of (zip upperLetters lowerLetters) c of Some d \<Rightarrow> d | None \<Rightarrow> c)"

definition toLowerCase :: "string \<Rightarrow> string" where
  "toLowerCase s = map lowerChar s"

definition isWhiteSpace :: "char \<Rightarrow> bool" where
  "isWhiteSpace c = (c \<in> set [CHR 0x09, CHR 0x0A, CHR 0x0B, CHR 0x0C, CHR 0x0D, CHR 0x20])"

definition trim :: "string \<Rightarrow> string" where
  "trim s = rev (dropWhile isWhiteSpace (rev (dropWhile isWhiteSpace s)))"

text \<open>\<open>s.includes(t)\<close>, written \<open>includesStr s t\<close>: \<open>t\<close> occurs in \<open>s\<close>
  as a contiguous run of characters.\<close>

fun includesStr :: "string \<Rightarrow> string \<Rightarrow> bool" where
  "includesStr [] t = (t = [])"
| "includesStr (c # cs) t = (prefix t (c # cs) \<or> includesStr cs t)"

text \<open>\<open>s.split('\n')\<close>: the lines of \<open>s\<close>; the empty string has one empty line.\<close>

fun split_lines :: "string \<Rightarrow> string list" where
  "split_lines [] = [[]]"
| "split_lines (c # cs) =
     (if c = CHR 0x0A then [] # split_lines cs
      else (c # hd (split_lines cs)) # tl (split_lines cs))"

text \<open>\<open>lines.join('\n')\<close>.\<close>

fun join_lines :: "string list \<Rightarrow> string" where
  "join_lines [] = []"
| "join_lines [l] = l"
| "join_lines (l # ls) = l @ CHR 0x0A # join_lines ls"

text \<open>\<open>xs.slice(a, b)\<close> for \<open>0 \<le> a\<close> and \<open>0 \<le> b\<close>.\<close>

definition slice :: "'a list \<Rightarrow> nat \<Rightarrow> nat \<Rightarrow> 'a list" where
  "slice xs a b = take (b - a) (drop a xs)"

text \<open>
  \<open>xs.sort(cmp)\<close>: the sort of an array is stable. An element is placed in front of
  the first element that the comparator does not order before it.
\<close>

fun insert_cmp :: "('a \<Rightarrow> 'a \<Rightarrow> int) \<Rightarrow> 'a \<Rightarrow> 'a list \<Rightarrow> 'a list" where
  "insert_cmp cmp x [] = [x]"
| "insert_cmp cmp x (y # ys) =
     (if cmp x y \<le> 0 then x # y # ys else y # insert_cmp cmp x ys)"

definition array_sort :: "('a \<Rightarrow> 'a \<Rightarrow> int) \<Rightarrow> 'a list \<Rightarrow> 'a list" where
  "array_sort cmp xs = foldr (insert_cmp cmp) xs []"

section \<open>Documents\<close>

type_synonym Date = nat

text \<open>
  The interface \<open>MarkdownDocument\<close> of the types module; \<open>TMDDocument\<close> is an alias of
  it. A field that an object may lack at run time is an option, \<open>None\<close> being
  \<open>undefined\<close>: the interface declares \<open>FNMdcId\<close>, \<open>FTMdcTags\<close> and the legacy
  fields optional, and the documents of the document store carry no legacy field. The time
  stamps, the size and the favourite flag are options as well, although every object that
  the modelled code builds has them. The legacy field \<open>id\<close> is written \<open>id'\<close>. The
  fields \<open>isStarred\<close> and \<open>folderId\<close> are left out: no function of the stores or of
  the database services reads or writes them.
\<close>

record MarkdownDocument =
  FNMdcId :: "nat option"
  FTMdcTitle :: string
  FTMdcContent :: string
  FDMdcModified :: "Date option"
  FDMdcCreated :: "Date option"
  FNMdcSize :: "nat option"
  FTMdcTags :: "string list option"
  FBMdcFavorite :: "bool option"
  id' :: "string option"
  title :: "string option"
  content :: "string option"
  createdAt :: "Date option"
  updatedAt :: "Date option"
  tags :: "string list option"

text \<open>
  \<open>Partial<MarkdownDocument>\<close>: the outer \<open>None\<close> is a field the object does not
  have; \<open>Some None\<close> is an optional field given as \<open>undefined\<close>.
\<close>

record DocumentUpdates =
  u_FNMdcId :: "nat option option"
  u_FTMdcTitle :: "string option"
  u_FTMdcContent :: "string option"
  u_FDMdcModified :: "Date option option"
  u_FDMdcCreated :: "Date option option"
  u_FNMdcSize :: "nat option option"
  u_FTMdcTags :: "string list option option"
  u_FBMdcFavorite :: "bool option option"
  u_title :: "string option option"
  u_content :: "string option option"
  u_updatedAt :: "Date option option"
  u_tags :: "string list option option"

definition noUpdates :: DocumentUpdates where
  "noUpdates = \<lparr>u_FNMdcId = None, u_FTMdcTitle = None, u_FTMdcContent = None,
     u_FDMdcModified = None, u_FDMdcCreated = None, u_FNMdcSize = None, u_FTMdcTags = None,
     u_FBMdcFavorite = None, u_title = None, u_content = None, u_updatedAt = None,
     u_tags = None\<rparr>"

fun upd :: "'a option \<Rightarrow> 'a \<Rightarrow> 'a" where
  "upd None old = old"
| "upd (Some v) old = v"

text \<open>The object spread \<open>{...doc, ...updates}\<close>, which is also what the update of a
  table does to the stored record.\<close>

definition applyUpdates :: "DocumentUpdates \<Rightarrow> MarkdownDocument \<Rightarrow> MarkdownDocument" where
  "applyUpdates u d = d\<lparr>
     FNMdcId := upd (u_FNMdcId u) (FNMdcId d),
     FTMdcTitle := upd (u_FTMdcTitle u) (FTMdcTitle d),
     FTMdcContent := upd (u_FTMdcContent u) (FTMdcContent d),
     FDMdcModified := upd (u_FDMdcModified u) (FDMdcModified d),
     FDMdcCreated := upd (u_FDMdcCreated u) (FDMdcCreated d),
     FNMdcSize := upd (u_FNMdcSize u) (FNMdcSize d),
     FTMdcTags := upd (u_FTMdcTags u) (FTMdcTags d),
     FBMdcFavorite := upd (u_FBMdcFavorite u) (FBMdcFavorite d),
     title := upd (u_title u) (title d),
     content := upd (u_content u) (content d),
     updatedAt := upd (u_updatedAt u) (updatedAt d),
     tags := upd (u_tags u) (tags d)\<rparr>"

section \<open>The markdown service: search within one content\<close>

text \<open>
  \<open>sMarkdownService.FSaMDKSearchInContent\<close>: one entry per line of the content whose
  lower-case form includes the lower-case query; the entry is the line with the line before
  and the line after it, where they exist.
\<close>

definition contextOf :: "string list \<Rightarrow> nat \<Rightarrow> string" where
  "contextOf aLines index =
     (let nStart = max 0 (index - 1);
          nEnd = min (length aLines - 1) (index + 1)
      in join_lines (slice aLines nStart (nEnd + 1)))"

definition FSaMDKSearchInContent :: "string \<Rightarrow> string \<Rightarrow> string list" where
  "FSaMDKSearchInContent ptContent ptQuery =
     (if trim ptQuery = [] then []
      else
        let aLines = split_lines ptContent;
            tLowerQuery = toLowerCase ptQuery
        in map (contextOf aLines)
             (filter (\<lambda>index. includesStr (toLowerCase (aLines ! index)) tLowerQuery)
                [0 ..< length aLines]))"

section \<open>The embedded database\<close>

text \<open>
  The tables are tables of Dexie, a library outside the repository. A table is modelled by
  the contract of the calls the services make: \<open>add\<close> rejects a key that is already
  stored, \<open>get\<close> finds the record with a key or nothing, \<open>update\<close> and \<open>delete\<close> of
  a key that is not stored change nothing and raise nothing, and \<open>orderBy\<close> lists the
  records that have the index field in ascending order of it, records with equal fields in
  the order of the table. Every call can also be rejected by the storage engine:
  \<open>failWrites\<close> and \<open>failReads\<close> say whether the engine currently rejects the calls
  that write and the calls that read.
\<close>

datatype error = StorageError | ConstraintError

record Table =
  records :: "MarkdownDocument list"
  autoIncrement :: nat
  failWrites :: bool
  failReads :: bool

definition table_get ::
    "(MarkdownDocument \<Rightarrow> 'k option) \<Rightarrow> 'k \<Rightarrow> Table \<Rightarrow> error + MarkdownDocument option" where
  "table_get key k t =
     (if failReads t then Inl StorageError
      else Inr (find (\<lambda>d. key d = Some k) (records t)))"

definition table_add ::
    "(MarkdownDocument \<Rightarrow> 'k option) \<Rightarrow> 'k \<Rightarrow> MarkdownDocument \<Rightarrow> Table \<Rightarrow> (error + 'k) \<times> Table" where
  "table_add key k d t =
     (if failWrites t then (Inl StorageError, t)
      else if list_ex (\<lambda>e. key e = Some k) (records t) then (Inl ConstraintError, t)
      else (Inr k, t\<lparr>records := records t @ [d]\<rparr>))"

definition table_update ::
    "(MarkdownDocument \<Rightarrow> 'k option) \<Rightarrow> 'k \<Rightarrow> DocumentUpdates \<Rightarrow> Table \<Rightarrow> (error + unit) \<times> Table" where
  "table_update key k u t =
     (if failWrites t then (Inl StorageError, t)
      else (Inr (), t\<lparr>records :=
              map (\<lambda>d. if key d = Some k then applyUpdates u d else d) (records t)\<rparr>))"

definition table_delete ::
    "(MarkdownDocument \<Rightarrow> 'k option) \<Rightarrow> 'k \<Rightarrow> Table \<Rightarrow> (error + unit) \<times> Table" where
  "table_delete key k t =
     (if failWrites t then (Inl StorageError, t)
      else (Inr (), t\<lparr>records := filter (\<lambda>d. key d \<noteq> Some k) (records t)\<rparr>))"

definition orderBy :: "(MarkdownDocument \<Rightarrow> Date option) \<Rightarrow> MarkdownDocument list \<Rightarrow> MarkdownDocument list" where
  "orderBy index rs = sort_key (\<lambda>d. the (index d)) (filter (\<lambda>d. index d \<noteq> None) rs)"

text \<open>\<open>table.orderBy(index).reverse().toArray()\<close>.\<close>

definition table_orderBy_reverse ::
    "(MarkdownDocument \<Rightarrow> Date option) \<Rightarrow> Table \<Rightarrow> error + MarkdownDocument list" where
  "table_orderBy_reverse index t =
     (if failReads t then Inl StorageError else Inr (rev (orderBy index (records t))))"

subsection \<open>The service \<open>mMarkdownDB\<close> over the table \<open>tMDDocument\<close>\<close>

text \<open>
  The primary key of \<open>tMDDocument\<close> is \<open>++FNMdcId\<close>: a document added without a key
  gets the next number of the table's key generator, and a stored key moves the generator
  past it. \<open>new Date()\<close> is the argument \<open>now\<close> of a function that reads the clock.
\<close>

definition FSaMDCGetAllDocuments :: "Table \<Rightarrow> error + MarkdownDocument list" where
  "FSaMDCGetAllDocuments t = table_orderBy_reverse FDMdcModified t"

definition FSoMDCGetDocumentById :: "Table \<Rightarrow> nat \<Rightarrow> error + MarkdownDocument option" where
  "FSoMDCGetDocumentById t pnDocId = table_get FNMdcId pnDocId t"

definition FSxMDCCreateDocument :: "Table \<Rightarrow> MarkdownDocument \<Rightarrow> (error + nat) \<times> Table" where
  "FSxMDCCreateDocument t poDocument =
     (let k = (case FNMdcId poDocument of None \<Rightarrow> autoIncrement t | Some k' \<Rightarrow> k')
      in case table_add FNMdcId k (poDocument\<lparr>FNMdcId := Some k\<rparr>) t of
           (Inl e, t') \<Rightarrow> (Inl e, t')
         | (Inr nDocId, t') \<Rightarrow>
             (Inr nDocId, t'\<lparr>autoIncrement := max (autoIncrement t) (Suc k)\<rparr>))"

definition FSxMDCUpdateDocument ::
    "Table \<Rightarrow> nat \<Rightarrow> DocumentUpdates \<Rightarrow> Date \<Rightarrow> (error + unit) \<times> Table" where
  "FSxMDCUpdateDocument t pnDocId poUpdates now =
     table_update FNMdcId pnDocId (poUpdates\<lparr>u_FDMdcModified := Some (Some now)\<rparr>) t"

definition FSxMDCDeleteDocument :: "Table \<Rightarrow> nat \<Rightarrow> (error + unit) \<times> Table" where
  "FSxMDCDeleteDocument t pnDocId = table_delete FNMdcId pnDocId t"

section \<open>The document store\<close>

text \<open>
  The state of \<open>useDocumentStore\<close>; its fields carry the prefix \<open>ds_\<close>. An action takes
  the table and the state and returns the outcome of its promise (\<open>Inl\<close> the error it is
  rejected with) together with the table and the state it leaves. An action is taken as one
  step, and every \<open>new Date()\<close> of one action reads the same instant \<open>now\<close>. The
  messages written to the console are not part of this state.
\<close>

record SearchResult =
  documentId :: "nat option"
  sr_title :: string
  sr_content :: string
  matchCount :: nat
  highlights :: "string list"

record DocumentStore =
  ds_documents :: "MarkdownDocument list"
  ds_currentDocument :: "MarkdownDocument option"
  ds_isLoading :: bool
  ds_searchQuery :: string
  ds_searchResults :: "SearchResult list"

definition documentStore_loadDocuments :: "Table \<times> DocumentStore \<Rightarrow> DocumentStore" where
  "documentStore_loadDocuments = (\<lambda>(t, s).
     (case FSaMDCGetAllDocuments t of
        Inr aDocuments \<Rightarrow> s\<lparr>ds_documents := aDocuments, ds_isLoading := False\<rparr>
      | Inl e \<Rightarrow> s\<lparr>ds_isLoading := False\<rparr>))"

definition documentStore_createDocument ::
    "string \<Rightarrow> string \<Rightarrow> Date \<Rightarrow> Table \<times> DocumentStore \<Rightarrow> (error + unit) \<times> Table \<times> DocumentStore" where
  "documentStore_createDocument ptTitle ptContent dNow = (\<lambda>(t, s).
     (let oNewDocument = \<lparr>FNMdcId = None, FTMdcTitle = ptTitle, FTMdcContent = ptContent,
            FDMdcModified = Some dNow, FDMdcCreated = Some dNow,
            FNMdcSize = Some (length ptContent), FTMdcTags = Some [],
            FBMdcFavorite = Some False, id' = None, title = None, content = None,
            createdAt = None, updatedAt = None, tags = None\<rparr>
      in case FSxMDCCreateDocument t oNewDocument of
           (Inl e, t') \<Rightarrow> (Inl e, t', s)
         | (Inr nDocId, t') \<Rightarrow>
             (case FSoMDCGetDocumentById t' nDocId of
                Inl e \<Rightarrow> (Inl e, t', s)
              | Inr None \<Rightarrow> (Inr (), t', s)
              | Inr (Some oCreatedDoc) \<Rightarrow>
                  (Inr (), t', s\<lparr>ds_documents := oCreatedDoc # ds_documents s,
                                 ds_currentDocument := Some oCreatedDoc\<rparr>))))"

definition withSize :: "DocumentUpdates \<Rightarrow> DocumentUpdates" where
  "withSize poUpdates =
     (case u_FTMdcContent poUpdates of
        None \<Rightarrow> poUpdates
      | Some c \<Rightarrow> poUpdates\<lparr>u_FNMdcSize := Some (Some (length c))\<rparr>)"

definition documentStore_updateDocument ::
    "nat \<Rightarrow> DocumentUpdates \<Rightarrow> Date \<Rightarrow> Table \<times> DocumentStore \<Rightarrow> (error + unit) \<times> Table \<times> DocumentStore" where
  "documentStore_updateDocument pnId poUpdates0 now = (\<lambda>(t, s).
     (let poUpdates = withSize poUpdates0
      in case FSxMDCUpdateDocument t pnId poUpdates now of
           (Inl e, t') \<Rightarrow> (Inl e, t', s)
         | (Inr _, t') \<Rightarrow>
             (let aUpdatedDocuments =
                    map (\<lambda>doc. if FNMdcId doc = Some pnId
                                then (applyUpdates poUpdates doc)\<lparr>FDMdcModified := Some now\<rparr>
                                else doc) (ds_documents s);
                  oUpdatedCurrentDoc =
                    (case ds_currentDocument s of
                       None \<Rightarrow> None
                     | Some cur \<Rightarrow>
                         if FNMdcId cur = Some pnId
                         then Some ((applyUpdates poUpdates cur)\<lparr>FDMdcModified := Some now\<rparr>)
                         else Some cur)
              in (Inr (), t', s\<lparr>ds_documents := aUpdatedDocuments,
                                ds_currentDocument := oUpdatedCurrentDoc\<rparr>))))"

definition documentStore_deleteDocument ::
    "nat \<Rightarrow> Table \<times> DocumentStore \<Rightarrow> (error + unit) \<times> Table \<times> DocumentStore" where
  "documentStore_deleteDocument pnId = (\<lambda>(t, s).
     (case FSxMDCDeleteDocument t pnId of
        (Inl e, t') \<Rightarrow> (Inl e, t', s)
      | (Inr _, t') \<Rightarrow>
          (let aFilteredDocuments = filter (\<lambda>doc. FNMdcId doc \<noteq> Some pnId) (ds_documents s);
               oNewCurrentDoc =
                 (case ds_currentDocument s of
                    None \<Rightarrow> None
                  | Some cur \<Rightarrow> if FNMdcId cur = Some pnId then None else Some cur)
           in (Inr (), t', s\<lparr>ds_documents := aFilteredDocuments,
                             ds_currentDocument := oNewCurrentDoc\<rparr>))))"

definition docMatches :: "string \<Rightarrow> MarkdownDocument \<Rightarrow> bool" where
  "docMatches tLowerQuery doc =
     (let bTitleMatch = includesStr (toLowerCase (FTMdcTitle doc)) tLowerQuery;
          bContentMatch = includesStr (toLowerCase (FTMdcContent doc)) tLowerQuery;
          bTagsMatch =
            (case FTMdcTags doc of
               None \<Rightarrow> False
             | Some ts \<Rightarrow> list_ex (\<lambda>tag. includesStr (toLowerCase tag) tLowerQuery) ts)
      in bTitleMatch \<or> bContentMatch \<or> bTagsMatch)"

definition mkSearchResult :: "string \<Rightarrow> MarkdownDocument \<Rightarrow> SearchResult" where
  "mkSearchResult ptQuery doc =
     (let aHighlights = FSaMDKSearchInContent (FTMdcContent doc) ptQuery;
          nMatchCount = length aHighlights
      in \<lparr>documentId = FNMdcId doc, sr_title = FTMdcTitle doc,
          sr_content = take 200 (FTMdcContent doc) @ ''...'',
          matchCount = nMatchCount, highlights = slice aHighlights 0 3\<rparr>)"

definition byMatchCount :: "SearchResult \<Rightarrow> SearchResult \<Rightarrow> int" where
  "byMatchCount a b = int (matchCount b) - int (matchCount a)"

definition documentStore_searchDocuments :: "string \<Rightarrow> DocumentStore \<Rightarrow> DocumentStore" where
  "documentStore_searchDocuments ptQuery s0 =
     (let s = s0\<lparr>ds_searchQuery := ptQuery\<rparr>
      in if trim ptQuery = [] then s\<lparr>ds_searchResults := []\<rparr>
         else
           (let tLowerQuery = toLowerCase ptQuery;
                aResults = map (mkSearchResult ptQuery)
                             (filter (docMatches tLowerQuery) (ds_documents s))
            in s\<lparr>ds_searchResults := array_sort byMatchCount aResults\<rparr>))"

section \<open>The editor store and its database service\<close>

subsection \<open>The service \<open>DatabaseService\<close> over the table \<open>documents\<close>\<close>

text \<open>
  The documents of this table carry the legacy fields; the key is \<open>id\<close>, a UUID that
  \<open>saveDocument\<close> draws, here its argument \<open>uuid\<close>.
\<close>

definition DatabaseService_getAllDocuments :: "Table \<Rightarrow> error + MarkdownDocument list" where
  "DatabaseService_getAllDocuments t = table_orderBy_reverse updatedAt t"

definition DatabaseService_getDocument :: "Table \<Rightarrow> string \<Rightarrow> error + MarkdownDocument option" where
  "DatabaseService_getDocument t i = table_get id' i t"

definition DatabaseService_saveDocument ::
    "Table \<Rightarrow> MarkdownDocument \<Rightarrow> Date \<Rightarrow> string \<Rightarrow> (error + string) \<times> Table" where
  "DatabaseService_saveDocument t document now uuid =
     (let newDoc = document\<lparr>id' := Some uuid, createdAt := Some now, updatedAt := Some now\<rparr>
      in table_add id' uuid newDoc t)"

definition DatabaseService_updateDocument ::
    "Table \<Rightarrow> string \<Rightarrow> DocumentUpdates \<Rightarrow> Date \<Rightarrow> (error + unit) \<times> Table" where
  "DatabaseService_updateDocument t i updates now =
     table_update id' i (updates\<lparr>u_updatedAt := Some (Some now)\<rparr>) t"

definition DatabaseService_deleteDocument :: "Table \<Rightarrow> string \<Rightarrow> (error + unit) \<times> Table" where
  "DatabaseService_deleteDocument t i = table_delete id' i t"

subsection \<open>The browser tab\<close>

text \<open>
  The state that the editor store, the editor component and the tool bar work on: the table
  \<open>documents\<close>, the state of \<open>useEditorStore\<close> (fields with the prefix \<open>es_\<close>), the
  clock read by \<open>new Date()\<close>, the pending timers of \<open>setTimeout\<close> (handle, due time,
  callback), the reference \<open>autoSaveTimeoutRef\<close> of the editor component, the UUIDs that
  \<open>crypto.randomUUID()\<close> will return, the messages of \<open>console.error\<close> and the
  messages shown by \<open>alert\<close>. Of the settings only \<open>autoSave\<close> and
  \<open>autoSaveInterval\<close> are kept, of the store's state the flags of the user interface
  are left out. An action of the store runs as one step: the clock does not move and no
  timer fires while it awaits the database.
\<close>

record AppSettings =
  autoSave :: bool
  autoSaveInterval :: nat

record EditorStore =
  es_currentDocument :: "MarkdownDocument option"
  es_content :: "string option"
  es_isAutoSaving :: bool
  es_lastSaved :: "Date option"
  es_documents :: "MarkdownDocument list"
  es_settings :: AppSettings

datatype callback = AutoSave | SaveCurrentDocument

record Browser =
  db :: Table
  store :: EditorStore
  clock :: Date
  timers :: "(nat \<times> Date \<times> callback) list"
  nextTimer :: nat
  autoSaveTimeoutRef :: "nat option"
  randomUUIDs :: "nat \<Rightarrow> string"
  uuidCount :: nat
  console :: "string list"
  alerts :: "string list"

definition console_error :: "string \<Rightarrow> Browser \<Rightarrow> Browser" where
  "console_error msg w = w\<lparr>console := console w @ [msg]\<rparr>"

definition alert :: "string \<Rightarrow> Browser \<Rightarrow> Browser" where
  "alert msg w = w\<lparr>alerts := alerts w @ [msg]\<rparr>"

definition crypto_randomUUID :: "Browser \<Rightarrow> string \<times> Browser" where
  "crypto_randomUUID w = (randomUUIDs w (uuidCount w), w\<lparr>uuidCount := Suc (uuidCount w)\<rparr>)"

definition setTimeout :: "callback \<Rightarrow> nat \<Rightarrow> Browser \<Rightarrow> nat \<times> Browser" where
  "setTimeout cb delay w =
     (nextTimer w,
      w\<lparr>timers := timers w @ [(nextTimer w, clock w + delay, cb)],
        nextTimer := Suc (nextTimer w)\<rparr>)"

definition clearTimeout :: "nat \<Rightarrow> Browser \<Rightarrow> Browser" where
  "clearTimeout h w = w\<lparr>timers := filter (\<lambda>tm. fst tm \<noteq> h) (timers w)\<rparr>"

subsection \<open>The actions of the editor store\<close>

definition editorStore_loadAllDocuments :: "Browser \<Rightarrow> Browser" where
  "editorStore_loadAllDocuments w =
     (case DatabaseService_getAllDocuments (db w) of
        Inr documents \<Rightarrow> w\<lparr>store := (store w)\<lparr>es_documents := documents\<rparr>\<rparr>
      | Inl e \<Rightarrow> console_error ''Failed to load documents:'' w)"

text \<open>After a document is stored it is read back and made the current document.\<close>

definition adoptDocument :: "string \<Rightarrow> Browser \<Rightarrow> error + Browser" where
  "adoptDocument i w =
     (case DatabaseService_getDocument (db w) i of
        Inl e \<Rightarrow> Inl e
      | Inr None \<Rightarrow> Inr (editorStore_loadAllDocuments w)
      | Inr (Some newDocument) \<Rightarrow>
          Inr (editorStore_loadAllDocuments
                 (w\<lparr>store := (store w)\<lparr>es_currentDocument := Some newDocument,
                                          es_content := content newDocument,
                                          es_lastSaved := Some (clock w)\<rparr>\<rparr>)))"

definition editorStore_createDocument ::
    "MarkdownDocument \<Rightarrow> Browser \<Rightarrow> (error + string) \<times> Browser" where
  "editorStore_createDocument docData w0 =
     (let (uuid, w) = crypto_randomUUID w0
      in case DatabaseService_saveDocument (db w) docData (clock w) uuid of
           (Inl e, t') \<Rightarrow> (Inl e, console_error ''Failed to create document:'' (w\<lparr>db := t'\<rparr>))
         | (Inr i, t') \<Rightarrow>
             (case adoptDocument i (w\<lparr>db := t'\<rparr>) of
                Inl e \<Rightarrow> (Inl e, console_error ''Failed to create document:'' (w\<lparr>db := t'\<rparr>))
              | Inr w' \<Rightarrow> (Inr i, w')))"

definition editorStore_autoSave :: "Browser \<Rightarrow> (error + unit) \<times> Browser" where
  "editorStore_autoSave w =
     (case es_currentDocument (store w) of
        None \<Rightarrow> (Inr (), w)
      | Some currentDocument \<Rightarrow>
          if \<not> autoSave (es_settings (store w)) \<or> es_isAutoSaving (store w) then (Inr (), w)
          else
            (let w1 = w\<lparr>store := (store w)\<lparr>es_isAutoSaving := True\<rparr>\<rparr>;
                 failed = console_error ''Auto-save failed:''
                            (w1\<lparr>store := (store w1)\<lparr>es_isAutoSaving := False\<rparr>\<rparr>)
             in case id' currentDocument of
                  None \<Rightarrow> (Inr (), failed)
                | Some i \<Rightarrow>
                    (case DatabaseService_updateDocument (db w1) i
                            (noUpdates\<lparr>u_content := Some (es_content (store w))\<rparr>) (clock w1) of
                       (Inl e, t') \<Rightarrow> (Inr (), failed)
                     | (Inr _, t') \<Rightarrow>
                         (Inr (), w1\<lparr>db := t',
                                    store := (store w1)\<lparr>es_lastSaved := Some (clock w1),
                                                       es_isAutoSaving := False\<rparr>\<rparr>))))"

definition editorStore_setContent :: "string \<Rightarrow> Browser \<Rightarrow> Browser" where
  "editorStore_setContent text w0 =
     (let w = w0\<lparr>store := (store w0)\<lparr>es_content := Some text\<rparr>\<rparr>
      in if autoSave (es_settings (store w)) then snd (setTimeout AutoSave 1000 w) else w)"

definition editorStore_setCurrentDocument :: "MarkdownDocument option \<Rightarrow> Browser \<Rightarrow> Browser" where
  "editorStore_setCurrentDocument document w =
     w\<lparr>store := (store w)\<lparr>
          es_currentDocument := document,
          es_content :=
            (case document of
               None \<Rightarrow> Some []
             | Some d \<Rightarrow> (case content d of None \<Rightarrow> Some [] | Some c \<Rightarrow> Some c))\<rparr>\<rparr>"

definition newDocumentText :: string where
  "newDocumentText = ''# New Document'' @ [CHR 0x0A, CHR 0x0A] @ ''Start writing here...''"

definition editorStore_createNewDocument :: "string \<Rightarrow> Browser \<Rightarrow> (error + unit) \<times> Browser" where
  "editorStore_createNewDocument ptTitle w0 =
     (let text = (case es_content (store w0) of
                    None \<Rightarrow> newDocumentText
                  | Some c \<Rightarrow> if c = [] then newDocumentText else c);
          now = clock w0;
          (uuid, w) = crypto_randomUUID w0;
          failed = console_error ''Failed to create document:'' w
      in case DatabaseService_saveDocument (db w)
                \<lparr>FNMdcId = None, FTMdcTitle = ptTitle, FTMdcContent = text,
                 FDMdcModified = Some now, FDMdcCreated = Some now,
                 FNMdcSize = Some (length text), FTMdcTags = Some [],
                 FBMdcFavorite = Some False, id' = None, title = Some ptTitle,
                 content = Some text, createdAt = None, updatedAt = None, tags = Some []\<rparr>
                (clock w) uuid of
           (Inl e, t') \<Rightarrow> (Inr (), failed)
         | (Inr i, t') \<Rightarrow>
             (case adoptDocument i (w\<lparr>db := t'\<rparr>) of
                Inl e \<Rightarrow> (Inr (), console_error ''Failed to create document:'' (w\<lparr>db := t'\<rparr>))
              | Inr w' \<Rightarrow> (Inr (), w')))"

definition editorStore_saveCurrentDocument :: "Browser \<Rightarrow> (error + unit) \<times> Browser" where
  "editorStore_saveCurrentDocument w =
     (case es_currentDocument (store w) of
        None \<Rightarrow> editorStore_createNewDocument ''Untitled Document'' w
      | Some currentDocument \<Rightarrow>
          (case id' currentDocument of
             None \<Rightarrow> (Inr (), console_error ''Failed to save document:'' w)
           | Some i \<Rightarrow>
               (case DatabaseService_updateDocument (db w) i
                       (noUpdates\<lparr>u_content := Some (es_content (store w)),
                                  u_title := Some (title currentDocument)\<rparr>) (clock w) of
                  (Inl e, t') \<Rightarrow> (Inr (), console_error ''Failed to save document:'' w)
                | (Inr _, t') \<Rightarrow>
                    (let w1 = w\<lparr>db := t'\<rparr>
                     in case DatabaseService_getDocument t' i of
                          Inl e \<Rightarrow> (Inr (), console_error ''Failed to save document:'' w1)
                        | Inr None \<Rightarrow> (Inr (), editorStore_loadAllDocuments w1)
                        | Inr (Some updatedDoc) \<Rightarrow>
                            (Inr (), editorStore_loadAllDocuments
                               (w1\<lparr>store := (store w1)\<lparr>es_currentDocument := Some updatedDoc,
                                                         es_lastSaved := Some (clock w1)\<rparr>\<rparr>))))))"

definition editorStore_saveDocument :: "Browser \<Rightarrow> (error + unit) \<times> Browser" where
  "editorStore_saveDocument w = editorStore_saveCurrentDocument w"

definition editorStore_deleteDocument :: "string \<Rightarrow> Browser \<Rightarrow> (error + unit) \<times> Browser" where
  "editorStore_deleteDocument i w =
     (case DatabaseService_deleteDocument (db w) i of
        (Inl e, t') \<Rightarrow> (Inr (), console_error ''Failed to delete document:'' w)
      | (Inr _, t') \<Rightarrow>
          (let w1 = w\<lparr>db := t'\<rparr>;
               w2 = (case es_currentDocument (store w1) of
                       None \<Rightarrow> w1
                     | Some currentDocument \<Rightarrow>
                         if id' currentDocument = Some i
                         then w1\<lparr>store := (store w1)\<lparr>es_currentDocument := None,
                                                    es_content := Some []\<rparr>\<rparr>
                         else w1)
           in (Inr (), editorStore_loadAllDocuments w2)))"

subsection \<open>The editor component and the tool bar\<close>

text \<open>
  \<open>handleContentChange\<close> of \<open>OMarkdownEditor\<close>: the component keeps the handle of its
  own two-second timer and clears it at every change. \<open>handleSave\<close> of the tool bar
  alerts the user when \<open>saveDocument\<close> is rejected.
\<close>

definition handleContentChange :: "string \<Rightarrow> Browser \<Rightarrow> Browser" where
  "handleContentChange newContent w =
     (if es_currentDocument (store w) \<noteq> None then
        (let w1 = editorStore_setContent newContent w;
             w2 = (case autoSaveTimeoutRef w1 of
                     None \<Rightarrow> w1
                   | Some h \<Rightarrow> if h = 0 then w1 else clearTimeout h w1);
             (h, w3) = setTimeout SaveCurrentDocument 2000 w2
         in w3\<lparr>autoSaveTimeoutRef := Some h\<rparr>)
      else w)"

definition handleSave :: "Browser \<Rightarrow> Browser" where
  "handleSave w =
     (if es_currentDocument (store w) \<noteq> None then
        (case editorStore_saveDocument w of
           (Inl e, w') \<Rightarrow> alert ''Failed to save document'' (console_error ''Failed to save document:'' w')
         | (Inr _, w') \<Rightarrow> w')
      else w)"

text \<open>
  The welcome document: the object that \<open>initialize\<close> of the home page passes to
  \<open>createDocument\<close> of the editor store. The welcome text is the template literal of the
  source, line by line; it stands in the fields \<open>FTMdcContent\<close> and \<open>content\<close>. Its
  last character, a rocket, is two code units of the program's string and is written as two
  characters outside ASCII. \<open>dCreated\<close> and \<open>dModified\<close> are the two instants that the
  object's two \<open>new Date()\<close> read.
\<close>

definition welcomeText :: string where
  "welcomeText = join_lines
     [''# Welcome to Markdown Editor'',
      [],
      ''This is a powerful markdown editor with real-time preview capabilities.'',
      [],
      ''## Features'',
      [],
      ''- **Real-time Preview**: See your markdown rendered as HTML instantly'',
      ''- **Auto-save**: Your work is automatically saved as you type'',
      ''- **Export Options**: Export to PDF, Excel, or Markdown files'',
      ''- **Import Support**: Import existing markdown files'',
      ''- **Dark Mode**: Toggle between light and dark themes'',
      ''- **Offline Support**: Works offline with PWA capabilities'',
      [],
      ''## Getting Started'',
      [],
      ''1. Start typing in the editor panel on the left'',
      ''2. See the live preview on the right'',
      ''3. Use the toolbar to save, import, or export your documents'',
      ''4. Create new documents using the file manager'',
      [],
      ''## Markdown Syntax Examples'',
      [],
      ''### Headers'',
      [CHR 0x60] @ [CHR 0x60] @ [CHR 0x60],
      ''# H1 Header'',
      ''## H2 Header'',
      ''### H3 Header'',
      [CHR 0x60] @ [CHR 0x60] @ [CHR 0x60],
      [],
      ''### Lists'',
      ''- Unordered list item 1'',
      ''- Unordered list item 2'',
      ''  - Nested item'',
      [],
      ''1. Ordered list item 1'',
      ''2. Ordered list item 2'',
      [],
      ''### Code'',
      ''Inline '' @ [CHR 0x60] @ ''code'' @ [CHR 0x60] @ '' and code blocks:'',
      [],
      [CHR 0x60] @ [CHR 0x60] @ [CHR 0x60] @ ''javascript'',
      ''function hello() {'',
      ''  console.log('' @ [CHR 0x27] @ ''Hello, World!'' @ [CHR 0x27] @ '');'',
      ''}'',
      [CHR 0x60] @ [CHR 0x60] @ [CHR 0x60],
      [],
      ''### Links and Images'',
      ''[Link text](https://example.com)'',
      ''![Alt text](https://via.placeholder.com/300x200)'',
      [],
      ''### Tables'',
      ''| Column 1 | Column 2 | Column 3 |'',
      ''|----------|----------|----------|'',
      ''| Row 1    | Data     | More     |'',
      ''| Row 2    | Data     | More     |'',
      [],
      ''### Blockquotes'',
      ''> This is a blockquote'',
      ''> It can span multiple lines'',
      [],
      ''---'',
      [],
      ''Happy writing! '' @ [CHR 0xFF, CHR 0xFF]]"

definition welcomeDocument :: "Date \<Rightarrow> Date \<Rightarrow> MarkdownDocument" where
  "welcomeDocument dCreated dModified =
     \<lparr>FNMdcId = None, FTMdcTitle = ''Welcome to MitIT Markdown Editor'',
      FTMdcContent = welcomeText, FDMdcModified = Some dModified,
      FDMdcCreated = Some dCreated, FNMdcSize = Some 0, FTMdcTags = Some [''welcome''],
      FBMdcFavorite = Some False, id' = None,
      title = Some ''Welcome to MitIT Markdown Editor'', content = Some welcomeText,
      createdAt = None, updatedAt = None, tags = Some [''welcome'']\<rparr>"

subsection \<open>The event loop\<close>

text \<open>
  Time passes between the steps: \<open>run_until t\<close> fires the pending timers that are due by
  \<open>t\<close>, the earliest first, each at its due time, and then sets the clock to \<open>t\<close>.
  The callbacks set no timers, so the loop ends.
\<close>

fun fire :: "callback \<Rightarrow> Browser \<Rightarrow> Browser" where
  "fire AutoSave w = snd (editorStore_autoSave w)"
| "fire SaveCurrentDocument w = snd (editorStore_saveCurrentDocument w)"

definition dueTimer :: "Date \<Rightarrow> Browser \<Rightarrow> (nat \<times> Date \<times> callback) option" where
  "dueTimer t w =
     (let ds = filter (\<lambda>tm. fst (snd tm) \<le> t) (timers w)
      in if ds = [] then None else Some (arg_min_list (\<lambda>tm. fst (snd tm)) ds))"

lemma timers_console_error [simp]: "timers (console_error m w) = timers w"
  by (simp add: console_error_def)

lemma timers_loadAllDocuments [simp]: "timers (editorStore_loadAllDocuments w) = timers w"
  by (simp add: editorStore_loadAllDocuments_def split: sum.splits)

lemma timers_adoptDocument: "adoptDocument i w = Inr w' \<Longrightarrow> timers w' = timers w"
  by (auto simp: adoptDocument_def split: sum.splits option.splits)

lemma timers_createNewDocument [simp]:
  "timers (snd (editorStore_createNewDocument ttl w)) = timers w"
  by (auto simp: editorStore_createNewDocument_def crypto_randomUUID_def Let_def
      dest: timers_adoptDocument split: sum.splits prod.splits)

lemma timers_saveCurrentDocument [simp]:
  "timers (snd (editorStore_saveCurrentDocument w)) = timers w"
  by (simp add: editorStore_saveCurrentDocument_def Let_def
      split: sum.splits prod.splits option.splits)

lemma timers_autoSave [simp]: "timers (snd (editorStore_autoSave w)) = timers w"
  by (simp add: editorStore_autoSave_def Let_def
      split: sum.splits prod.splits option.splits)

lemma timers_fire: "timers (fire cb w) = timers w"
  by (cases cb) simp_all

lemma dueTimer_in: "dueTimer t w = Some tm \<Longrightarrow> tm \<in> set (timers w)"
proof -
  assume a: "dueTimer t w = Some tm"
  let ?ds = "filter (\<lambda>tm. fst (snd tm) \<le> t) (timers w)"
  from a have ne: "?ds \<noteq> []" and tm: "tm = arg_min_list (\<lambda>tm. fst (snd tm)) ?ds"
    by (auto simp: dueTimer_def Let_def split: if_splits)
  from ne have "arg_min_list (\<lambda>tm. fst (snd tm)) ?ds \<in> set ?ds"
    by (rule arg_min_list_in)
  with tm show ?thesis by simp
qed

function run_until :: "Date \<Rightarrow> Browser \<Rightarrow> Browser" where
  "run_until t w =
     (case dueTimer t w of
        None \<Rightarrow> w\<lparr>clock := max (clock w) t\<rparr>
      | Some tm \<Rightarrow>
          run_until t
            (fire (snd (snd tm))
               (w\<lparr>clock := max (clock w) (fst (snd tm)), timers := remove1 tm (timers w)\<rparr>)))"
  by pat_completeness auto
termination
proof (relation "measure (\<lambda>(t, w). length (timers w))")
  show "wf (measure (\<lambda>(t, w). length (timers w)))" by simp
next
  fix t w tm
  assume "dueTimer t w = Some tm"
  then have "tm \<in> set (timers w)" by (rule dueTimer_in)
  then have "length (remove1 tm (timers w)) < length (timers w)"
    by (simp add: length_remove1) (cases "timers w"; simp)
  then show "((t, fire (snd (snd tm))
                 (w\<lparr>clock := max (clock w) (fst (snd tm)), timers := remove1 tm (timers w)\<rparr>)),
              (t, w)) \<in> measure (\<lambda>(t, w). length (timers w))"
    by (simp add: timers_fire)
qed

section \<open>Predicates of the specification\<close>

text \<open>
  The words of the specification and of the claims, for comparison with the code:
  \<^item> a text contains a query as a case-insensitive substring; a document matches a query in
    its title, its content or one of its tags; the number of lines of a document's content
    that contain the query; a query that is empty or only white space;
  \<^item> a list of documents with the latest modification first;
  \<^item> the observable state of the editor: stored documents, list of documents, current
    document, draft content;
  \<^item> the id of the current document of either store, \<open>currentDocument?.FNMdcId\<close> and
    \<open>currentDocument?.id\<close>, and the editor with its current document and draft cleared
    when the current document has a given id;
  \<^item> a document whose size is the length of its content; a table whose keys are below its
    key generator; the document that \<open>createDocument\<close> of the document store builds,
    with its key.
\<close>

definition ciContains :: "string \<Rightarrow> string \<Rightarrow> bool" where
  "ciContains s q = sublist (toLowerCase q) (toLowerCase s)"

definition ciMatch :: "string \<Rightarrow> MarkdownDocument \<Rightarrow> bool" where
  "ciMatch q d =
     (ciContains (FTMdcTitle d) q \<or> ciContains (FTMdcContent d) q \<or>
      (case FTMdcTags d of None \<Rightarrow> False | Some ts \<Rightarrow> list_ex (\<lambda>tag. ciContains tag q) ts))"

definition matchingLines :: "string \<Rightarrow> MarkdownDocument \<Rightarrow> nat" where
  "matchingLines q d = length (filter (\<lambda>l. ciContains l q) (split_lines (FTMdcContent d)))"

definition blank :: "string \<Rightarrow> bool" where
  "blank q = list_all isWhiteSpace q"

definition newestFirst :: "(MarkdownDocument \<Rightarrow> Date option) \<Rightarrow> MarkdownDocument list \<Rightarrow> bool" where
  "newestFirst modified ds =
     sorted_wrt (\<lambda>a b. case (modified a, modified b) of
                          (Some m, Some n) \<Rightarrow> n \<le> m
                        | _ \<Rightarrow> False) ds"

definition observable ::
    "Browser \<Rightarrow> MarkdownDocument list \<times> MarkdownDocument list \<times> MarkdownDocument option \<times> string option" where
  "observable w =
     (records (db w), es_documents (store w), es_currentDocument (store w), es_content (store w))"

definition currentFNMdcId :: "DocumentStore \<Rightarrow> nat option" where
  "currentFNMdcId s = (case ds_currentDocument s of None \<Rightarrow> None | Some c \<Rightarrow> FNMdcId c)"

definition currentId :: "Browser \<Rightarrow> string option" where
  "currentId w = (case es_currentDocument (store w) of None \<Rightarrow> None | Some c \<Rightarrow> id' c)"

definition forgetCurrent :: "string \<Rightarrow> Browser \<Rightarrow> Browser" where
  "forgetCurrent i w =
     (if currentId w = Some i
      then w\<lparr>store := (store w)\<lparr>es_currentDocument := None, es_content := Some []\<rparr>\<rparr>
      else w)"

definition sizeConsistent :: "MarkdownDocument \<Rightarrow> bool" where
  "sizeConsistent d = (FNMdcSize d = Some (length (FTMdcContent d)))"

definition keysBelowGenerator :: "Table \<Rightarrow> bool" where
  "keysBelowGenerator t =
     list_all (\<lambda>d. case FNMdcId d of None \<Rightarrow> False | Some k \<Rightarrow> k < autoIncrement t) (records t)"

definition newDocument :: "string \<Rightarrow> string \<Rightarrow> Date \<Rightarrow> nat \<Rightarrow> MarkdownDocument" where
  "newDocument ptTitle ptContent dNow k =
     \<lparr>FNMdcId = Some k, FTMdcTitle = ptTitle, FTMdcContent = ptContent,
      FDMdcModified = Some dNow, FDMdcCreated = Some dNow,
      FNMdcSize = Some (length ptContent), FTMdcTags = Some [],
      FBMdcFavorite = Some False, id' = None, title = None, content = None,
      createdAt = None, updatedAt = None, tags = None\<rparr>"

section \<open>Sample data\<close>

text \<open>
  Documents, tables and states for the concrete runs: a document store over a table of two
  documents; the initial state of the editor store in a browser with an empty table; a
  browser with two stored documents, the first of them current; the same browser with a
  changed draft and a storage engine that rejects writes; and the browser after
  \<open>createNewDocument\<close> on the initial state.
\<close>

definition doc0 :: MarkdownDocument where
  "doc0 = \<lparr>FNMdcId = Some 1, FTMdcTitle = ''a b'', FTMdcContent = ''# Hello'',
     FDMdcModified = Some 5, FDMdcCreated = Some 5, FNMdcSize = Some 7, FTMdcTags = Some [],
     FBMdcFavorite = Some False, id' = None, title = None, content = None,
     createdAt = None, updatedAt = None, tags = None\<rparr>"

definition store0 :: DocumentStore where
  "store0 = \<lparr>ds_documents = [doc0], ds_currentDocument = None, ds_isLoading = False,
     ds_searchQuery = [], ds_searchResults = []\<rparr>"

definition emptyTable :: Table where
  "emptyTable = \<lparr>records = [], autoIncrement = 1, failWrites = False, failReads = False\<rparr>"

definition doc1 :: MarkdownDocument where
  "doc1 = \<lparr>FNMdcId = Some 2, FTMdcTitle = ''Notes'', FTMdcContent = ''hello'',
     FDMdcModified = Some 9, FDMdcCreated = Some 7, FNMdcSize = Some 5, FTMdcTags = Some [],
     FBMdcFavorite = Some False, id' = None, title = None, content = None,
     createdAt = None, updatedAt = None, tags = None\<rparr>"

definition tableA :: Table where
  "tableA = \<lparr>records = [doc0, doc1], autoIncrement = 3, failWrites = False, failReads = False\<rparr>"

definition initialStore :: EditorStore where
  "initialStore = \<lparr>es_currentDocument = None, es_content = Some [], es_isAutoSaving = False,
     es_lastSaved = None, es_documents = [],
     es_settings = \<lparr>autoSave = True, autoSaveInterval = 5000\<rparr>\<rparr>"

definition browser0 :: Browser where
  "browser0 = \<lparr>db = emptyTable, store = initialStore, clock = 0, timers = [], nextTimer = 1,
     autoSaveTimeoutRef = None, randomUUIDs = (\<lambda>n. replicate (Suc n) CHR ''u''),
     uuidCount = 0, console = [], alerts = []\<rparr>"

definition storeA :: DocumentStore where
  "storeA = \<lparr>ds_documents = [doc1, doc0], ds_currentDocument = Some doc0, ds_isLoading = False,
     ds_searchQuery = [], ds_searchResults = []\<rparr>"

definition docB1 :: MarkdownDocument where
  "docB1 = \<lparr>FNMdcId = None, FTMdcTitle = ''One'', FTMdcContent = ''one'',
     FDMdcModified = Some 1, FDMdcCreated = Some 1, FNMdcSize = Some 3, FTMdcTags = Some [],
     FBMdcFavorite = Some False, id' = Some ''u'', title = Some ''One'', content = Some ''one'',
     createdAt = Some 1, updatedAt = Some 1, tags = Some []\<rparr>"

definition docB2 :: MarkdownDocument where
  "docB2 = \<lparr>FNMdcId = None, FTMdcTitle = ''Two'', FTMdcContent = ''two'',
     FDMdcModified = Some 2, FDMdcCreated = Some 2, FNMdcSize = Some 3, FTMdcTags = Some [],
     FBMdcFavorite = Some False, id' = Some ''uu'', title = Some ''Two'', content = Some ''two'',
     createdAt = Some 2, updatedAt = Some 2, tags = Some []\<rparr>"

definition browserB :: Browser where
  "browserB = browser0\<lparr>
     db := emptyTable\<lparr>records := [docB1, docB2]\<rparr>,
     store := initialStore\<lparr>es_currentDocument := Some docB1, es_content := Some ''one'',
                es_lastSaved := Some 2, es_documents := [docB2, docB1]\<rparr>,
     clock := 5, uuidCount := 2\<rparr>"

definition browserFailing :: Browser where
  "browserFailing = browserB\<lparr>
     db := (db browserB)\<lparr>failWrites := True\<rparr>,
     store := (store browserB)\<lparr>es_content := Some ''one more word''\<rparr>\<rparr>"

definition created :: Browser where
  "created = snd (editorStore_createNewDocument ''Untitled Document'' browser0)"

definition contentUpdate :: "string \<Rightarrow> DocumentUpdates" where
  "contentUpdate c = noUpdates\<lparr>u_FTMdcContent := Some c\<rparr>"

section \<open>Lemmas on strings and sorting\<close>

lemma trim_empty_iff: "trim s = [] \<longleftrightarrow> (\<forall>c\<in>set s. isWhiteSpace c)"
proof
  assume "trim s = []"
  then have all: "\<forall>c\<in>set (dropWhile isWhiteSpace s). isWhiteSpace c"
    by (simp add: trim_def dropWhile_eq_Nil_conv)
  have "dropWhile isWhiteSpace s = []"
  proof (rule ccontr)
    assume ne: "dropWhile isWhiteSpace s \<noteq> []"
    then have "\<not> isWhiteSpace (hd (dropWhile isWhiteSpace s))"
      by (rule hd_dropWhile)
    moreover have "hd (dropWhile isWhiteSpace s) \<in> set (dropWhile isWhiteSpace s)"
      using ne by simp
    ultimately show False using all by blast
  qed
  then show "\<forall>c\<in>set s. isWhiteSpace c"
    by (simp add: dropWhile_eq_Nil_conv)
next
  assume "\<forall>c\<in>set s. isWhiteSpace c"
  then have d: "dropWhile isWhiteSpace s = []"
    by (simp add: dropWhile_eq_Nil_conv)
  show "trim s = []"
    unfolding trim_def d by simp
qed

lemma includesStr_sublist: "includesStr s t = sublist t s"
  by (induction s) (simp_all add: sublist_Cons_right)

lemma mset_insert_cmp: "mset (insert_cmp cmp x ys) = add_mset x (mset ys)"
  by (induction ys) simp_all

lemma mset_array_sort: "mset (array_sort cmp xs) = mset xs"
  by (induction xs) (simp_all add: array_sort_def mset_insert_cmp)

lemma set_insert_cmp: "set (insert_cmp cmp x ys) = insert x (set ys)"
  by (induction ys) auto

lemma sorted_insert_cmp:
  assumes "sorted_wrt (\<lambda>a b. k b \<le> (k a :: nat)) ys"
  shows "sorted_wrt (\<lambda>a b. k b \<le> k a) (insert_cmp (\<lambda>a b. int (k b) - int (k a)) x ys)"
  using assms by (induction ys) (auto simp: set_insert_cmp)

lemma sorted_array_sort:
  "sorted_wrt (\<lambda>a b. k b \<le> (k a :: nat)) (array_sort (\<lambda>a b. int (k b) - int (k a)) xs)"
  by (induction xs) (simp_all add: array_sort_def sorted_insert_cmp)

lemma map_insert_cmp:
  "map f (insert_cmp (\<lambda>a b. cmp (f a) (f b)) x ys) = insert_cmp cmp (f x) (map f ys)"
  by (induction ys) simp_all

lemma map_array_sort:
  "array_sort cmp (map f xs) = map f (array_sort (\<lambda>a b. cmp (f a) (f b)) xs)"
  by (induction xs) (simp_all add: array_sort_def map_insert_cmp)

lemma length_filter_index:
  "length (filter (\<lambda>i. P (xs ! i)) [0 ..< length xs]) = length (filter P xs)"
proof -
  have "filter P xs = filter P (map (nth xs) [0 ..< length xs])"
    by (simp add: map_nth)
  also have "\<dots> = map (nth xs) (filter (\<lambda>i. P (xs ! i)) [0 ..< length xs])"
    by (simp add: filter_map comp_def)
  finally show ?thesis by simp
qed

lemma docMatches_ciMatch: "docMatches (toLowerCase q) = ciMatch q"
  by (rule ext)
     (simp add: docMatches_def ciMatch_def ciContains_def includesStr_sublist
      split: option.splits)

lemma matchCount_mkSearchResult:
  "trim q \<noteq> [] \<Longrightarrow> matchCount (mkSearchResult q d) = matchingLines q d"
  by (simp add: mkSearchResult_def FSaMDKSearchInContent_def matchingLines_def Let_def
      ciContains_def includesStr_sublist
      length_filter_index [where P = "\<lambda>l. sublist (toLowerCase q) (toLowerCase l)"])

section \<open>Lemmas on the table and on deleting\<close>

lemma sorted_wrt_the_Some:
  assumes "sorted_wrt (\<lambda>a b. the (index a) \<le> (the (index b) :: nat)) xs"
    and "\<forall>d\<in>set xs. index d \<noteq> None"
  shows "sorted_wrt (\<lambda>a b. case (index b, index a) of
                          (Some m, Some n) \<Rightarrow> n \<le> m | _ \<Rightarrow> False) xs"
  using assms
proof (induction xs)
  case Nil
  then show ?case by simp
next
  case (Cons x xs)
  from Cons.prems obtain m where m: "index x = Some m" by auto
  have "\<forall>y\<in>set xs. case (index y, index x) of (Some m, Some n) \<Rightarrow> n \<le> m | _ \<Rightarrow> False"
  proof
    fix y assume y: "y \<in> set xs"
    with Cons.prems obtain n where n: "index y = Some n" by auto
    from Cons.prems(1) y have "the (index x) \<le> the (index y)" by simp
    with m n show "case (index y, index x) of (Some m, Some n) \<Rightarrow> n \<le> m | _ \<Rightarrow> False"
      by simp
  qed
  moreover have "sorted_wrt (\<lambda>a b. case (index b, index a) of
                          (Some m, Some n) \<Rightarrow> n \<le> m | _ \<Rightarrow> False) xs"
    using Cons by simp
  ultimately show ?case by simp
qed

lemma newestFirst_orderBy: "newestFirst index (rev (orderBy index rs))"
proof -
  let ?k = "\<lambda>d. the (index d)"
  let ?xs = "filter (\<lambda>d. index d \<noteq> None) rs"
  have "sorted (map ?k (sort_key ?k ?xs))"
    by (rule sorted_sort_key)
  then have 1: "sorted_wrt (\<lambda>a b. ?k a \<le> ?k b) (sort_key ?k ?xs)"
    by (simp only: sorted_map)
  have 2: "\<forall>d\<in>set (sort_key ?k ?xs). index d \<noteq> None"
    by simp
  have "sorted_wrt (\<lambda>a b. case (index b, index a) of
                          (Some m, Some n) \<Rightarrow> n \<le> m | _ \<Rightarrow> False) (sort_key ?k ?xs)"
    using 1 2 by (rule sorted_wrt_the_Some)
  then show ?thesis
    by (simp only: newestFirst_def orderBy_def sorted_wrt_rev)
qed

lemma editorStore_deleteDocument_failed:
  "failWrites (db w) \<Longrightarrow>
   editorStore_deleteDocument i w = (Inr (), console_error ''Failed to delete document:'' w)"
  by (simp add: editorStore_deleteDocument_def DatabaseService_deleteDocument_def
      table_delete_def)

lemma editorStore_deleteDocument_ok:
  "\<not> failWrites (db w) \<Longrightarrow>
   editorStore_deleteDocument i w =
     (Inr (), editorStore_loadAllDocuments
        (forgetCurrent i
           (w\<lparr>db := (db w)\<lparr>records := filter (\<lambda>d. id' d \<noteq> Some i) (records (db w))\<rparr>\<rparr>)))"
  by (simp add: editorStore_deleteDocument_def DatabaseService_deleteDocument_def
      table_delete_def forgetCurrent_def currentId_def Let_def split: option.splits)

lemma loadAllDocuments_failed:
  "failReads (db w) \<Longrightarrow>
   editorStore_loadAllDocuments w = console_error ''Failed to load documents:'' w"
  by (simp add: editorStore_loadAllDocuments_def DatabaseService_getAllDocuments_def
      table_orderBy_reverse_def)

lemma loadAllDocuments_ok:
  "\<not> failReads (db w) \<Longrightarrow>
   editorStore_loadAllDocuments w =
     w\<lparr>store := (store w)\<lparr>es_documents := rev (orderBy updatedAt (records (db w)))\<rparr>\<rparr>"
  by (simp add: editorStore_loadAllDocuments_def DatabaseService_getAllDocuments_def
      table_orderBy_reverse_def)

lemma currentId_forgetCurrent: "currentId (forgetCurrent i w) \<noteq> Some i"
  by (simp add: forgetCurrent_def currentId_def)

lemma forgetCurrent_idem: "currentId w \<noteq> Some i \<Longrightarrow> forgetCurrent i w = w"
  by (simp add: forgetCurrent_def)

lemma editorStore_delete_twice:
  "observable (snd (editorStore_deleteDocument i (snd (editorStore_deleteDocument i w)))) =
   observable (snd (editorStore_deleteDocument i w))"
proof (cases "failWrites (db w)")
  case True
  then show ?thesis
    by (simp add: editorStore_deleteDocument_failed console_error_def observable_def)
next
  case False
  define w1 where
    "w1 = forgetCurrent i
            (w\<lparr>db := (db w)\<lparr>records := filter (\<lambda>d. id' d \<noteq> Some i) (records (db w))\<rparr>\<rparr>)"
  have cur: "currentId w1 \<noteq> Some i"
    unfolding w1_def by (rule currentId_forgetCurrent)
  have dbw1: "db w1 = (db w)\<lparr>records := filter (\<lambda>d. id' d \<noteq> Some i) (records (db w))\<rparr>"
    by (simp add: w1_def forgetCurrent_def)
  have first: "snd (editorStore_deleteDocument i w) = editorStore_loadAllDocuments w1"
    using False by (simp add: editorStore_deleteDocument_ok w1_def)
  show ?thesis
  proof (cases "failReads (db w)")
    case True
    then have l1: "editorStore_loadAllDocuments w1 = console_error ''Failed to load documents:'' w1"
      by (simp add: loadAllDocuments_failed dbw1)
    let ?w2 = "console_error ''Failed to load documents:'' w1"
    have c2: "currentId ?w2 \<noteq> Some i"
      using cur by (simp add: currentId_def console_error_def)
    have "snd (editorStore_deleteDocument i ?w2) =
          editorStore_loadAllDocuments (forgetCurrent i (?w2\<lparr>db := db w1\<rparr>))"
      using False by (simp add: editorStore_deleteDocument_ok console_error_def dbw1)
    also have "forgetCurrent i (?w2\<lparr>db := db w1\<rparr>) = ?w2"
      using c2 by (simp add: forgetCurrent_def currentId_def console_error_def)
    also have "editorStore_loadAllDocuments ?w2 = console_error ''Failed to load documents:'' ?w2"
      using True by (simp add: loadAllDocuments_failed console_error_def dbw1)
    finally show ?thesis
      by (simp add: first l1 observable_def console_error_def)
  next
    case r: False
    then have l1: "editorStore_loadAllDocuments w1 =
        w1\<lparr>store := (store w1)\<lparr>es_documents := rev (orderBy updatedAt (records (db w1)))\<rparr>\<rparr>"
      by (simp add: loadAllDocuments_ok dbw1)
    let ?w2 = "w1\<lparr>store := (store w1)\<lparr>es_documents := rev (orderBy updatedAt (records (db w1)))\<rparr>\<rparr>"
    have c2: "currentId ?w2 \<noteq> Some i"
      using cur by (simp add: currentId_def)
    have "snd (editorStore_deleteDocument i ?w2) =
          editorStore_loadAllDocuments (forgetCurrent i (?w2\<lparr>db := db w1\<rparr>))"
      using False by (simp add: editorStore_deleteDocument_ok dbw1)
    also have "forgetCurrent i (?w2\<lparr>db := db w1\<rparr>) = ?w2"
      using c2 by (simp add: forgetCurrent_def currentId_def)
    also have "editorStore_loadAllDocuments ?w2 = ?w2"
      using r by (simp add: loadAllDocuments_ok dbw1)
    finally show ?thesis
      by (simp add: first l1)
  qed
qed

lemma orderBy_filter: "orderBy index (filter P rs) = filter P (orderBy index rs)"
proof -
  have "filter (\<lambda>d. index d \<noteq> None) (filter P rs) = filter P (filter (\<lambda>d. index d \<noteq> None) rs)"
    by (simp add: conj_commute)
  then show ?thesis
    by (simp only: orderBy_def filter_sort)
qed

lemma documentStore_deleteDocument_ok:
  assumes "\<not> failWrites t"
  shows "documentStore_deleteDocument k (t, s) =
     (Inr (), t\<lparr>records := filter (\<lambda>d. FNMdcId d \<noteq> Some k) (records t)\<rparr>,
      s\<lparr>ds_documents := filter (\<lambda>d. FNMdcId d \<noteq> Some k) (ds_documents s),
        ds_currentDocument := (if currentFNMdcId s = Some k then None else ds_currentDocument s)\<rparr>)"
  using assms
  by (simp add: documentStore_deleteDocument_def FSxMDCDeleteDocument_def table_delete_def
        currentFNMdcId_def Let_def split: option.splits)

lemma documentStore_deleteDocument_failed:
  assumes "failWrites t"
  shows "documentStore_deleteDocument k (t, s) = (Inl StorageError, t, s)"
  using assms
  by (simp add: documentStore_deleteDocument_def FSxMDCDeleteDocument_def table_delete_def)

lemma editorStore_delete_frame:
  assumes "currentId w \<noteq> Some i"
  shows "store (snd (editorStore_deleteDocument i w)) =
           (store w)\<lparr>es_documents := es_documents (store (snd (editorStore_deleteDocument i w)))\<rparr>"
proof (cases "failWrites (db w)")
  case True
  then show ?thesis
    by (simp add: editorStore_deleteDocument_failed console_error_def)
next
  case False
  let ?w0 = "w\<lparr>db := (db w)\<lparr>records := filter (\<lambda>d. id' d \<noteq> Some i) (records (db w))\<rparr>\<rparr>"
  have "currentId ?w0 \<noteq> Some i"
    using assms by (simp add: currentId_def)
  then have f: "forgetCurrent i ?w0 = ?w0"
    by (rule forgetCurrent_idem)
  show ?thesis
  proof (cases "failReads (db w)")
    case True
    with False f show ?thesis
      by (simp add: editorStore_deleteDocument_ok loadAllDocuments_failed console_error_def)
  next
    case r: False
    with False f show ?thesis
      by (simp add: editorStore_deleteDocument_ok loadAllDocuments_ok)
  qed
qed

lemma editorStore_delete_list:
  assumes "\<not> failWrites (db w)" and "\<not> failReads (db w)"
  shows "es_documents (store (snd (editorStore_deleteDocument i w))) =
           rev (orderBy updatedAt (filter (\<lambda>d. id' d \<noteq> Some i) (records (db w))))"
  using assms
  by (simp add: editorStore_deleteDocument_ok loadAllDocuments_ok forgetCurrent_def)

lemma editorStore_delete_in_sync:
  assumes "DatabaseService_getAllDocuments (db w) = Inr (es_documents (store w))"
    and "\<not> failWrites (db w)"
  shows "es_documents (store (snd (editorStore_deleteDocument i w))) =
           filter (\<lambda>d. id' d \<noteq> Some i) (es_documents (store w))"
proof -
  from assms(1) have r: "\<not> failReads (db w)"
    by (simp add: DatabaseService_getAllDocuments_def table_orderBy_reverse_def split: if_splits)
  with assms(1) have l: "es_documents (store w) = rev (orderBy updatedAt (records (db w)))"
    by (simp add: DatabaseService_getAllDocuments_def table_orderBy_reverse_def)
  show ?thesis
    using r assms(2) by (simp add: editorStore_delete_list l orderBy_filter rev_filter)
qed

section \<open>Lemmas on saving\<close>

lemma createNewDocument_failed:
  "failWrites (db w) \<Longrightarrow>
   editorStore_createNewDocument ttl w =
     (Inr (), console_error ''Failed to create document:'' (w\<lparr>uuidCount := Suc (uuidCount w)\<rparr>))"
  by (simp add: editorStore_createNewDocument_def crypto_randomUUID_def
      DatabaseService_saveDocument_def table_add_def Let_def)

lemma saveCurrentDocument_failed:
  assumes "failWrites (db w)"
  shows "store (snd (editorStore_saveCurrentDocument w)) = store w \<and>
         db (snd (editorStore_saveCurrentDocument w)) = db w \<and>
         fst (editorStore_saveCurrentDocument w) = Inr ()"
proof (cases "es_currentDocument (store w)")
  case None
  with assms show ?thesis
    by (simp add: editorStore_saveCurrentDocument_def createNewDocument_failed console_error_def)
next
  case (Some currentDocument)
  with assms show ?thesis
    by (cases "id' currentDocument")
       (simp_all add: editorStore_saveCurrentDocument_def DatabaseService_updateDocument_def
          table_update_def console_error_def)
qed

lemma autoSave_failed:
  assumes "failWrites (db w)"
  shows "store (snd (editorStore_autoSave w)) = store w \<and>
         db (snd (editorStore_autoSave w)) = db w \<and>
         fst (editorStore_autoSave w) = Inr ()"
proof (cases "es_currentDocument (store w)")
  case None
  then show ?thesis
    by (simp add: editorStore_autoSave_def)
next
  case (Some currentDocument)
  show ?thesis
  proof (cases "\<not> autoSave (es_settings (store w)) \<or> es_isAutoSaving (store w)")
    case True
    with Some show ?thesis
      by (simp add: editorStore_autoSave_def)
  next
    case False
    then have "(store w)\<lparr>es_isAutoSaving := False\<rparr> = store w"
      by simp
    with False Some assms show ?thesis
      by (cases "id' currentDocument")
         (simp_all add: editorStore_autoSave_def DatabaseService_updateDocument_def
            table_update_def console_error_def Let_def)
  qed
qed

lemma saveCurrentDocument_resolves: "fst (editorStore_saveCurrentDocument w) = Inr ()"
proof (cases "es_currentDocument (store w)")
  case None
  then show ?thesis
    by (simp add: editorStore_saveCurrentDocument_def editorStore_createNewDocument_def
        Let_def split: prod.splits sum.splits)
next
  case (Some currentDocument)
  then show ?thesis
    by (simp add: editorStore_saveCurrentDocument_def Let_def
        split: prod.splits sum.splits option.splits)
qed

lemma alerts_console_error [simp]: "alerts (console_error m w) = alerts w"
  by (simp add: console_error_def)

lemma alerts_loadAllDocuments [simp]: "alerts (editorStore_loadAllDocuments w) = alerts w"
  by (simp add: editorStore_loadAllDocuments_def split: sum.splits)

lemma alerts_adoptDocument: "adoptDocument i w = Inr w' \<Longrightarrow> alerts w' = alerts w"
  by (auto simp: adoptDocument_def split: sum.splits option.splits)

lemma alerts_createNewDocument [simp]:
  "alerts (snd (editorStore_createNewDocument ttl w)) = alerts w"
  by (auto simp: editorStore_createNewDocument_def crypto_randomUUID_def Let_def
      dest: alerts_adoptDocument split: sum.splits prod.splits)

lemma alerts_saveCurrentDocument [simp]:
  "alerts (snd (editorStore_saveCurrentDocument w)) = alerts w"
  by (simp add: editorStore_saveCurrentDocument_def Let_def
      split: sum.splits prod.splits option.splits)

lemma handleSave_never_alerts: "alerts (handleSave w) = alerts w"
proof (cases "es_currentDocument (store w)")
  case None
  then show ?thesis by (simp add: handleSave_def)
next
  case (Some currentDocument)
  obtain r w' where rw: "editorStore_saveCurrentDocument w = (r, w')"
    by (cases "editorStore_saveCurrentDocument w")
  with saveCurrentDocument_resolves [of w] have r: "r = Inr ()" by simp
  from rw alerts_saveCurrentDocument [of w] have "alerts w' = alerts w"
    by simp
  with Some rw r show ?thesis
    by (simp add: handleSave_def editorStore_saveDocument_def)
qed

section \<open>Lemmas on creating and updating in the document store\<close>

lemma sizeConsistent_applyUpdates:
  assumes "sizeConsistent d" and "u_FTMdcContent u \<noteq> None \<or> u_FNMdcSize u = None"
  shows "sizeConsistent (applyUpdates ((withSize u)\<lparr>u_FDMdcModified := m\<rparr>) d)"
  using assms
  by (cases "u_FTMdcContent u")
     (simp_all add: sizeConsistent_def applyUpdates_def withSize_def)

lemma sizeConsistent_spread:
  assumes "sizeConsistent d" and "u_FTMdcContent u \<noteq> None \<or> u_FNMdcSize u = None"
  shows "sizeConsistent ((applyUpdates (withSize u) d)\<lparr>FDMdcModified := m\<rparr>)"
  using assms
  by (cases "u_FTMdcContent u")
     (simp_all add: sizeConsistent_def applyUpdates_def withSize_def)

lemma list_all_map_if:
  assumes "list_all P xs" and "\<And>d. P d \<Longrightarrow> P (f d)"
  shows "list_all P (map (\<lambda>d. if c d then f d else d) xs)"
  using assms by (induction xs) simp_all

lemma fresh_key:
  assumes "keysBelowGenerator t"
  shows "\<not> list_ex (\<lambda>e. FNMdcId e = Some (autoIncrement t)) (records t)"
proof
  assume "list_ex (\<lambda>e. FNMdcId e = Some (autoIncrement t)) (records t)"
  then obtain e where e: "e \<in> set (records t)" and k: "FNMdcId e = Some (autoIncrement t)"
    by (auto simp: list_ex_iff)
  from assms e have "case FNMdcId e of None \<Rightarrow> False | Some k \<Rightarrow> k < autoIncrement t"
    by (simp add: keysBelowGenerator_def list_all_iff)
  with k show False by simp
qed

lemma find_fresh:
  assumes "\<not> list_ex P xs" and "P x"
  shows "find P (xs @ [x]) = Some x"
  using assms by (induction xs) simp_all

section \<open>Search\<close>

text \<open>
  C10. For a query that is empty or consists only of white space, \<open>searchDocuments\<close>
  sets the search results to the empty list, whatever the documents hold, and the search
  within a content finds no line.
\<close>

theorem blank_query_no_results:
  assumes "blank ptQuery"
  shows "ds_searchResults (documentStore_searchDocuments ptQuery s) = [] \<and>
         FSaMDKSearchInContent ptContent ptQuery = []"
proof -
  from assms have "trim ptQuery = []"
    by (simp add: blank_def trim_empty_iff list_all_iff)
  then show ?thesis
    by (simp add: documentStore_searchDocuments_def FSaMDKSearchInContent_def)
qed

theorem blank_query_no_results_witness:
  "blank [CHR 0x20, CHR 0x09] \<and>
   ds_searchResults (documentStore_searchDocuments [CHR 0x20, CHR 0x09] store0) = [] \<and>
   FSaMDKSearchInContent ''# Hello'' [CHR 0x20, CHR 0x09] = []"
proof -
  have b: "blank [CHR 0x20, CHR 0x09]"
    by (simp add: blank_def isWhiteSpace_def)
  show ?thesis
    using b blank_query_no_results [OF b, of store0 "''# Hello''"] by simp
qed

text \<open>
  C7, as the specification states it, fails for a query that is not empty but blank: the
  document titled \<open>a b\<close> contains the query of one space, and the search returns nothing.
\<close>

theorem blank_nonempty_query_counterexample:
  "[CHR 0x20] \<noteq> [] \<and> ciMatch [CHR 0x20] doc0 \<and>
   ds_searchResults (documentStore_searchDocuments [CHR 0x20] store0) = []"
  by (simp add: ciMatch_def ciContains_def doc0_def toLowerCase_def lowerChar_def
      upperLetters_def lowerLetters_def sublist_Cons_right
      documentStore_searchDocuments_def trim_def isWhiteSpace_def)

text \<open>
  C7, amended. For every query with a character that is not white space, the search results
  are built from exactly the documents whose title, content or some tag contains the query
  as a case-insensitive substring, each document once, ordered by the number of lines of
  the content that contain the query, descending; the match count of a result is that
  number.
\<close>

theorem search_ranked:
  assumes "\<not> blank q"
  shows "\<exists>ranked.
           mset ranked = mset (filter (ciMatch q) (ds_documents s)) \<and>
           sorted_wrt (\<lambda>a b. matchingLines q b \<le> matchingLines q a) ranked \<and>
           ds_searchResults (documentStore_searchDocuments q s) = map (mkSearchResult q) ranked \<and>
           map matchCount (ds_searchResults (documentStore_searchDocuments q s)) =
             map (matchingLines q) ranked"
proof -
  from assms have ne: "trim q \<noteq> []"
    by (simp add: blank_def trim_empty_iff list_all_iff)
  define k where "k = (\<lambda>d. matchCount (mkSearchResult q d))"
  define ranked where
    "ranked = array_sort (\<lambda>a b. int (k b) - int (k a)) (filter (ciMatch q) (ds_documents s))"
  have k: "k = matchingLines q"
    using ne by (simp add: k_def fun_eq_iff matchCount_mkSearchResult)
  have 1: "mset ranked = mset (filter (ciMatch q) (ds_documents s))"
    by (simp add: ranked_def mset_array_sort)
  have 2: "sorted_wrt (\<lambda>a b. matchingLines q b \<le> matchingLines q a) ranked"
    unfolding ranked_def k [symmetric] by (rule sorted_array_sort)
  have 3: "ds_searchResults (documentStore_searchDocuments q s) = map (mkSearchResult q) ranked"
    using ne
    by (simp add: documentStore_searchDocuments_def Let_def docMatches_ciMatch map_array_sort
        byMatchCount_def ranked_def k_def)
  have 4: "map matchCount (map (mkSearchResult q) ranked) = map (matchingLines q) ranked"
    using ne by (simp add: matchCount_mkSearchResult)
  from 1 2 3 4 show ?thesis by metis
qed

theorem search_ranked_witness:
  "\<not> blank ''hello'' \<and>
   (\<exists>ranked.
      mset ranked = mset (filter (ciMatch ''hello'') (ds_documents store0)) \<and>
      sorted_wrt (\<lambda>a b. matchingLines ''hello'' b \<le> matchingLines ''hello'' a) ranked \<and>
      ds_searchResults (documentStore_searchDocuments ''hello'' store0) =
        map (mkSearchResult ''hello'') ranked \<and>
      map matchCount (ds_searchResults (documentStore_searchDocuments ''hello'' store0)) =
        map (matchingLines ''hello'') ranked) \<and>
   map documentId (ds_searchResults (documentStore_searchDocuments ''hello'' store0)) = [Some 1]"
proof -
  have nb: "\<not> blank ''hello''"
    by (simp add: blank_def isWhiteSpace_def)
  have ev: "map documentId (ds_searchResults (documentStore_searchDocuments ''hello'' store0)) = [Some 1]"
    by (simp add: documentStore_searchDocuments_def store0_def doc0_def trim_def isWhiteSpace_def
        Let_def docMatches_def toLowerCase_def lowerChar_def upperLetters_def lowerLetters_def
        array_sort_def mkSearchResult_def)
  show ?thesis
    using nb search_ranked [OF nb, of store0] ev by simp
qed

section \<open>Listing\<close>

text \<open>
  C5. The operation that lists all documents returns them ordered by the modification time,
  descending: \<open>FSaMDCGetAllDocuments\<close> by \<open>FDMdcModified\<close> and
  \<open>getAllDocuments\<close> of the database service by \<open>updatedAt\<close>; of two documents
  of the result the one listed first has the later or the same time. The operation returns
  no list only when the storage engine rejects the read.
\<close>

theorem list_newest_first:
  "(case FSaMDCGetAllDocuments t of
      Inr ds \<Rightarrow> newestFirst FDMdcModified ds
    | Inl e \<Rightarrow> failReads t) \<and>
   (case DatabaseService_getAllDocuments t' of
      Inr ds \<Rightarrow> newestFirst updatedAt ds
    | Inl e \<Rightarrow> failReads t')"
  by (simp add: FSaMDCGetAllDocuments_def DatabaseService_getAllDocuments_def
      table_orderBy_reverse_def newestFirst_orderBy)

theorem list_newest_first_witness:
  "FSaMDCGetAllDocuments tableA = Inr [doc1, doc0] \<and> newestFirst FDMdcModified [doc1, doc0]"
proof -
  have ev: "FSaMDCGetAllDocuments tableA = Inr [doc1, doc0]"
    by (simp add: FSaMDCGetAllDocuments_def table_orderBy_reverse_def orderBy_def tableA_def
        doc0_def doc1_def)
  show ?thesis
    using list_newest_first [of tableA emptyTable] ev by simp
qed

section \<open>Deleting\<close>

text \<open>
  C8. Deleting the same id twice in succession leaves the state that deleting it once
  leaves: in the document store the table and the whole state of the store, in the editor
  store the stored documents, the list of documents, the current document and the draft
  content. The second call raises no error, whether or not the id exists: the editor store
  never rejects, the document store rejects only when the storage engine rejects the write.
\<close>

theorem delete_idempotent:
  "snd (documentStore_deleteDocument k (snd (documentStore_deleteDocument k (t, s)))) =
     snd (documentStore_deleteDocument k (t, s)) \<and>
   (\<not> failWrites t \<longrightarrow>
      fst (documentStore_deleteDocument k (t, s)) = Inr () \<and>
      fst (documentStore_deleteDocument k (snd (documentStore_deleteDocument k (t, s)))) = Inr ()) \<and>
   observable (snd (editorStore_deleteDocument i (snd (editorStore_deleteDocument i w)))) =
     observable (snd (editorStore_deleteDocument i w)) \<and>
   fst (editorStore_deleteDocument i w) = Inr () \<and>
   fst (editorStore_deleteDocument i (snd (editorStore_deleteDocument i w))) = Inr ()"
proof -
  have a: "snd (documentStore_deleteDocument k (snd (documentStore_deleteDocument k (t, s)))) =
     snd (documentStore_deleteDocument k (t, s))"
  proof (cases "failWrites t")
    case True
    then show ?thesis by (simp add: documentStore_deleteDocument_failed)
  next
    case False
    then show ?thesis
      by (simp add: documentStore_deleteDocument_ok currentFNMdcId_def)
  qed
  have b: "\<not> failWrites t \<longrightarrow>
      fst (documentStore_deleteDocument k (t, s)) = Inr () \<and>
      fst (documentStore_deleteDocument k (snd (documentStore_deleteDocument k (t, s)))) = Inr ()"
    by (simp add: documentStore_deleteDocument_ok)
  have c: "fst (editorStore_deleteDocument j v) = Inr ()" for j v
    by (cases "failWrites (db v)")
       (simp_all add: editorStore_deleteDocument_failed editorStore_deleteDocument_ok)
  from a b c editorStore_delete_twice show ?thesis by simp
qed

theorem delete_idempotent_witness:
  "\<not> failWrites tableA \<and>
   fst (documentStore_deleteDocument 7 (tableA, storeA)) = Inr () \<and>
   snd (documentStore_deleteDocument 7 (tableA, storeA)) = (tableA, storeA) \<and>
   snd (documentStore_deleteDocument 7 (snd (documentStore_deleteDocument 7 (tableA, storeA)))) =
     (tableA, storeA) \<and>
   observable (snd (editorStore_deleteDocument ''u'' (snd (editorStore_deleteDocument ''u'' browserB)))) =
     observable (snd (editorStore_deleteDocument ''u'' browserB))"
proof -
  have h: "\<not> failWrites tableA"
    by (simp add: tableA_def)
  have ev: "snd (documentStore_deleteDocument 7 (tableA, storeA)) = (tableA, storeA)"
    by (simp add: documentStore_deleteDocument_def FSxMDCDeleteDocument_def table_delete_def
        tableA_def storeA_def doc0_def doc1_def)
  show ?thesis
    using h ev delete_idempotent [of 7 tableA storeA "''u''" browserB] by simp
qed

text \<open>
  C9. Deleting an id that is not the id of the current document leaves the current document
  and the draft content as they were, and changes no field of the store's state but the
  list of documents. When the storage engine accepts the calls the list has no document
  with the deleted id afterwards: in the document store it is the old list without that
  document; in the editor store it is read again from the table and is the old list
  without that document whenever the old list was what the table listed.
\<close>

theorem delete_other_frame:
  assumes "currentFNMdcId s \<noteq> Some k" and "currentId w \<noteq> Some i"
  shows "snd (snd (documentStore_deleteDocument k (t, s))) =
           s\<lparr>ds_documents := ds_documents (snd (snd (documentStore_deleteDocument k (t, s))))\<rparr> \<and>
         (\<not> failWrites t \<longrightarrow>
            ds_documents (snd (snd (documentStore_deleteDocument k (t, s)))) =
              filter (\<lambda>d. FNMdcId d \<noteq> Some k) (ds_documents s)) \<and>
         store (snd (editorStore_deleteDocument i w)) =
           (store w)\<lparr>es_documents := es_documents (store (snd (editorStore_deleteDocument i w)))\<rparr> \<and>
         (\<not> failWrites (db w) \<and> \<not> failReads (db w) \<longrightarrow>
            (\<forall>d\<in>set (es_documents (store (snd (editorStore_deleteDocument i w)))).
               id' d \<noteq> Some i)) \<and>
         (\<not> failWrites (db w) \<and>
          DatabaseService_getAllDocuments (db w) = Inr (es_documents (store w)) \<longrightarrow>
            es_documents (store (snd (editorStore_deleteDocument i w))) =
              filter (\<lambda>d. id' d \<noteq> Some i) (es_documents (store w)))"
proof -
  have a: "snd (snd (documentStore_deleteDocument k (t, s))) =
           s\<lparr>ds_documents := ds_documents (snd (snd (documentStore_deleteDocument k (t, s))))\<rparr>"
    using assms(1)
    by (cases "failWrites t")
       (simp_all add: documentStore_deleteDocument_failed documentStore_deleteDocument_ok)
  have b: "\<not> failWrites t \<longrightarrow>
            ds_documents (snd (snd (documentStore_deleteDocument k (t, s)))) =
              filter (\<lambda>d. FNMdcId d \<noteq> Some k) (ds_documents s)"
    by (simp add: documentStore_deleteDocument_ok)
  have c: "\<not> failWrites (db w) \<and> \<not> failReads (db w) \<longrightarrow>
            (\<forall>d\<in>set (es_documents (store (snd (editorStore_deleteDocument i w)))).
               id' d \<noteq> Some i)"
    by (simp add: editorStore_delete_list orderBy_def)
  from a b c editorStore_delete_frame [OF assms(2)] editorStore_delete_in_sync [of w i]
  show ?thesis by simp
qed

theorem delete_other_frame_witness:
  "currentFNMdcId storeA \<noteq> Some 2 \<and> currentId browserB \<noteq> Some ''uu'' \<and>
   snd (snd (documentStore_deleteDocument 2 (tableA, storeA))) = storeA\<lparr>ds_documents := [doc0]\<rparr> \<and>
   store (snd (editorStore_deleteDocument ''uu'' browserB)) =
     (store browserB)\<lparr>es_documents := [docB1]\<rparr>"
proof -
  have h1: "currentFNMdcId storeA \<noteq> Some 2"
    by (simp add: currentFNMdcId_def storeA_def doc0_def)
  have h2: "currentId browserB \<noteq> Some ''uu''"
    by (simp add: currentId_def browserB_def browser0_def initialStore_def docB1_def)
  have h3: "\<not> failWrites tableA"
    by (simp add: tableA_def)
  have h4: "\<not> failWrites (db browserB) \<and>
            DatabaseService_getAllDocuments (db browserB) = Inr (es_documents (store browserB))"
    by (simp add: browserB_def browser0_def initialStore_def emptyTable_def
        DatabaseService_getAllDocuments_def table_orderBy_reverse_def orderBy_def
        docB1_def docB2_def)
  have l1: "filter (\<lambda>d. FNMdcId d \<noteq> Some 2) (ds_documents storeA) = [doc0]"
    by (simp add: storeA_def doc0_def doc1_def)
  have l2: "filter (\<lambda>d. id' d \<noteq> Some ''uu'') (es_documents (store browserB)) = [docB1]"
    by (simp add: browserB_def browser0_def initialStore_def docB1_def docB2_def)
  note frame = delete_other_frame [OF h1 h2, of tableA]
  from frame h3 l1
  have a: "ds_documents (snd (snd (documentStore_deleteDocument 2 (tableA, storeA)))) = [doc0]"
    by simp
  from frame h4 l2
  have b: "es_documents (store (snd (editorStore_deleteDocument ''uu'' browserB))) = [docB1]"
    by simp
  from frame
  have "snd (snd (documentStore_deleteDocument 2 (tableA, storeA))) =
          storeA\<lparr>ds_documents :=
            ds_documents (snd (snd (documentStore_deleteDocument 2 (tableA, storeA))))\<rparr>"
    and "store (snd (editorStore_deleteDocument ''uu'' browserB)) =
          (store browserB)\<lparr>es_documents :=
            es_documents (store (snd (editorStore_deleteDocument ''uu'' browserB)))\<rparr>"
    by blast+
  then have "snd (snd (documentStore_deleteDocument 2 (tableA, storeA))) =
          storeA\<lparr>ds_documents := [doc0]\<rparr>"
    and "store (snd (editorStore_deleteDocument ''uu'' browserB)) =
          (store browserB)\<lparr>es_documents := [docB1]\<rparr>"
    by (simp_all only: a b)
  with h1 h2 show ?thesis by blast
qed

section \<open>Saving\<close>

text \<open>
  C4. When the storage engine rejects the write of a commit, by \<open>saveCurrentDocument\<close>
  or by \<open>autoSave\<close>, the draft content of the editor is what it was before the call;
  so are the rest of the store's state and the table, so the draft can be edited and
  committed again.
\<close>

theorem failed_commit_keeps_draft:
  assumes "failWrites (db w)"
  shows "es_content (store (snd (editorStore_saveCurrentDocument w))) = es_content (store w) \<and>
         es_content (store (snd (editorStore_autoSave w))) = es_content (store w) \<and>
         store (snd (editorStore_saveCurrentDocument w)) = store w \<and>
         store (snd (editorStore_autoSave w)) = store w \<and>
         db (snd (editorStore_saveCurrentDocument w)) = db w \<and>
         db (snd (editorStore_autoSave w)) = db w"
  using saveCurrentDocument_failed [OF assms] autoSave_failed [OF assms] by simp

theorem failed_commit_keeps_draft_witness:
  "failWrites (db browserFailing) \<and>
   es_content (store (snd (editorStore_saveCurrentDocument browserFailing))) = Some ''one more word'' \<and>
   es_content (store (snd (editorStore_autoSave browserFailing))) = Some ''one more word''"
proof -
  have h: "failWrites (db browserFailing)"
    by (simp add: browserFailing_def)
  have c: "es_content (store browserFailing) = Some ''one more word''"
    by (simp add: browserFailing_def)
  show ?thesis
    using h c failed_commit_keeps_draft [OF h] by simp
qed

text \<open>
  C3 says that a failed write of a commit reaches the caller as an error the user sees. The
  code does otherwise: in a browser whose storage engine rejects writes,
  \<open>saveCurrentDocument\<close> resolves and only writes to the console, and \<open>handleSave\<close> of
  the tool bar, which alerts the user when \<open>saveDocument\<close> is rejected, shows no alert.
\<close>

theorem save_failure_swallowed:
  "fst (editorStore_saveCurrentDocument browserFailing) = Inr () \<and>
   console (snd (editorStore_saveCurrentDocument browserFailing)) = [''Failed to save document:''] \<and>
   alerts (handleSave browserFailing) = [] \<and>
   console (handleSave browserFailing) = [''Failed to save document:'']"
  by (simp add: editorStore_saveCurrentDocument_def handleSave_def editorStore_saveDocument_def
      DatabaseService_updateDocument_def table_update_def console_error_def
      browserFailing_def browserB_def browser0_def initialStore_def emptyTable_def docB1_def)

theorem save_failure_swallowed_witness:
  "failWrites (db browserFailing) \<and> alerts (handleSave browserFailing) = []"
proof -
  have "failWrites (db browserFailing)"
    by (simp add: browserFailing_def)
  then show ?thesis
    using save_failure_swallowed by simp
qed

text \<open>
  C1 says that the stored size is the length of the stored content after every committed
  update. The code does otherwise on the editor store's path: a new document is stored with
  its size, 37 for the default text; after the draft \<open>longer text\<close> is committed, by
  \<open>saveCurrentDocument\<close> or by \<open>autoSave\<close>, the stored content has 11 characters and
  the stored size is still 37; the field \<open>FTMdcContent\<close> still holds the default text.
\<close>

theorem saved_size_is_stale:
  "map (\<lambda>d. (content d, FTMdcContent d, FNMdcSize d)) (records (db created)) =
     [(Some newDocumentText, newDocumentText, Some (length newDocumentText))] \<and>
   length newDocumentText = 37 \<and>
   map (\<lambda>d. (content d, FTMdcContent d, FNMdcSize d))
     (records (db (snd (editorStore_saveCurrentDocument
                          (editorStore_setContent ''longer text'' created))))) =
     [(Some ''longer text'', newDocumentText, Some 37)] \<and>
   map (\<lambda>d. (content d, FTMdcContent d, FNMdcSize d))
     (records (db (snd (editorStore_autoSave
                          (editorStore_setContent ''longer text'' created))))) =
     [(Some ''longer text'', newDocumentText, Some 37)]"
  by code_simp

theorem saved_size_is_stale_witness:
  "length ''longer text'' = 11 \<and>
   map (\<lambda>d. (content d, FTMdcContent d, FNMdcSize d))
     (records (db (snd (editorStore_saveCurrentDocument
                          (editorStore_setContent ''longer text'' created))))) =
     [(Some ''longer text'', newDocumentText, Some 37)]"
  using saved_size_is_stale by simp

section \<open>Creating\<close>

lemma length_welcomeText: "length welcomeText = 1362"
  by code_simp

text \<open>
  C6 says that after every create the size is the length of the content. The code does
  otherwise for the welcome document of the home page: \<open>createDocument\<close> of the editor
  store stores the object it is given, with the same instant as creation and modification
  time, and the welcome document is given with the size 0 and a content of 1362 characters.
\<close>

theorem welcome_document_size_is_zero:
  "fst (editorStore_createDocument (welcomeDocument dCreated dModified) browser0) = Inr ''u'' \<and>
   map (\<lambda>d. (FTMdcContent d, content d, FNMdcSize d, createdAt d, updatedAt d))
     (records (db (snd (editorStore_createDocument (welcomeDocument dCreated dModified)
                          browser0)))) =
     [(welcomeText, Some welcomeText, Some 0, Some 0, Some 0)] \<and>
   length welcomeText = 1362"
  by (simp add: editorStore_createDocument_def welcomeDocument_def browser0_def
      crypto_randomUUID_def DatabaseService_saveDocument_def table_add_def emptyTable_def
      adoptDocument_def DatabaseService_getDocument_def table_get_def
      editorStore_loadAllDocuments_def DatabaseService_getAllDocuments_def
      table_orderBy_reverse_def Let_def length_welcomeText)

theorem welcome_document_size_is_zero_witness:
  "map (\<lambda>d. (FTMdcContent d, content d, FNMdcSize d, createdAt d, updatedAt d))
     (records (db (snd (editorStore_createDocument (welcomeDocument 0 0) browser0)))) =
     [(welcomeText, Some welcomeText, Some 0, Some 0, Some 0)] \<and>
   length welcomeText = 1362"
  using welcome_document_size_is_zero [of 0 0] by simp

section \<open>Auto-save\<close>

text \<open>
  C2 says that rapid changes of the draft lead to at most one commit, each change cancelling
  the pending delay. The code does otherwise: \<open>setContent\<close> sets a timer of one second
  at every call and clears none. With the draft changed at 5 and at 505 milliseconds, two
  timers are pending; the first commits at 1005, before the quiet period after the last
  change is over, and the second commits again at 1505.
\<close>

theorem rapid_setContent_commits_twice:
  "(let w1 = editorStore_setContent ''a'' browserB;
        w2 = editorStore_setContent ''ab'' (run_until 505 w1);
        w3 = run_until 1005 w2;
        w4 = run_until 1505 w3
    in timers w2 = [(1, 1005, AutoSave), (2, 1505, AutoSave)] \<and>
       map updatedAt (records (db w3)) = [Some 1005, Some 2] \<and>
       es_lastSaved (store w3) = Some 1005 \<and>
       map updatedAt (records (db w4)) = [Some 1505, Some 2] \<and>
       es_lastSaved (store w4) = Some 1505)"
  by code_simp

theorem rapid_setContent_commits_twice_witness:
  "length (timers (editorStore_setContent ''ab''
             (run_until 505 (editorStore_setContent ''a'' browserB)))) = 2"
  using rapid_setContent_commits_twice by (simp add: Let_def)

text \<open>
  The editor component clears and sets again only its own timer of two seconds: through
  \<open>handleContentChange\<close> the same two changes leave the two timers of \<open>setContent\<close>
  and one timer of the component pending, and the draft is committed three times.
\<close>

lemma rapid_handleContentChange_commits_thrice:
  "(let w1 = handleContentChange ''a'' browserB;
        w2 = handleContentChange ''ab'' (run_until 505 w1);
        w3 = run_until 1005 w2;
        w4 = run_until 1505 w3;
        w5 = run_until 2505 w4
    in timers w2 = [(1, 1005, AutoSave), (3, 1505, AutoSave), (4, 2505, SaveCurrentDocument)] \<and>
       es_lastSaved (store w3) = Some 1005 \<and>
       es_lastSaved (store w4) = Some 1505 \<and>
       es_lastSaved (store w5) = Some 2505 \<and>
       timers w5 = [])"
  by code_simp

section \<open>The sibling paths\<close>

text \<open>
  \<open>updateDocument\<close> of the document store keeps the size of every document equal to
  the length of its content, in the table and in the list of the store, for every update
  that carries a content or carries no size: it computes the size from the new content
  before it writes.
\<close>

theorem update_keeps_size_consistent:
  assumes "u_FTMdcContent u \<noteq> None \<or> u_FNMdcSize u = None"
    and "list_all sizeConsistent (records t)"
    and "list_all sizeConsistent (ds_documents s)"
  shows "list_all sizeConsistent
           (records (fst (snd (documentStore_updateDocument k u now (t, s))))) \<and>
         list_all sizeConsistent
           (ds_documents (snd (snd (documentStore_updateDocument k u now (t, s)))))"
proof (cases "failWrites t")
  case True
  with assms show ?thesis
    by (simp add: documentStore_updateDocument_def FSxMDCUpdateDocument_def table_update_def)
next
  case False
  have 1: "list_all sizeConsistent
             (map (\<lambda>d. if FNMdcId d = Some k
                        then applyUpdates ((withSize u)\<lparr>u_FDMdcModified := Some (Some now)\<rparr>) d
                        else d) (records t))"
    using assms(2) by (rule list_all_map_if) (rule sizeConsistent_applyUpdates [OF _ assms(1)])
  have 2: "list_all sizeConsistent
             (map (\<lambda>doc. if FNMdcId doc = Some k
                          then (applyUpdates (withSize u) doc)\<lparr>FDMdcModified := Some now\<rparr>
                          else doc) (ds_documents s))"
    using assms(3) by (rule list_all_map_if) (rule sizeConsistent_spread [OF _ assms(1)])
  from False 1 2 show ?thesis
    by (simp add: documentStore_updateDocument_def FSxMDCUpdateDocument_def table_update_def
        Let_def)
qed

theorem update_keeps_size_consistent_witness:
  "list_all sizeConsistent (records tableA) \<and>
   list_all sizeConsistent
     (records (fst (snd (documentStore_updateDocument 1 (contentUpdate ''longer text'') 20
                           (tableA, storeA))))) \<and>
   map (\<lambda>d. (FTMdcContent d, FNMdcSize d))
     (records (fst (snd (documentStore_updateDocument 1 (contentUpdate ''longer text'') 20
                           (tableA, storeA))))) =
     [(''longer text'', Some 11), (''hello'', Some 5)]"
proof -
  have h1: "u_FTMdcContent (contentUpdate ''longer text'') \<noteq> None \<or>
            u_FNMdcSize (contentUpdate ''longer text'') = None"
    by (simp add: contentUpdate_def)
  have h2: "list_all sizeConsistent (records tableA)"
    by (simp add: tableA_def sizeConsistent_def doc0_def doc1_def)
  have h3: "list_all sizeConsistent (ds_documents storeA)"
    by (simp add: storeA_def sizeConsistent_def doc0_def doc1_def)
  have ev: "map (\<lambda>d. (FTMdcContent d, FNMdcSize d))
     (records (fst (snd (documentStore_updateDocument 1 (contentUpdate ''longer text'') 20
                           (tableA, storeA))))) =
     [(''longer text'', Some 11), (''hello'', Some 5)]"
    by code_simp
  show ?thesis
    using update_keeps_size_consistent [OF h1 h2 h3, of 1 20] h2 ev by simp
qed

text \<open>
  \<open>createDocument\<close> of the document store, on a table whose keys are below its key
  generator and with a storage engine that accepts the calls, stores the new document with
  the title and the content it is given, makes it the current document and the first of the
  list; its creation and modification times are the same instant and its size is the
  length of its content.
\<close>

theorem created_document_is_consistent:
  assumes "\<not> failWrites t" and "\<not> failReads t" and "keysBelowGenerator t"
  shows "documentStore_createDocument ptTitle ptContent dNow (t, s) =
           (Inr (),
            t\<lparr>records := records t @ [newDocument ptTitle ptContent dNow (autoIncrement t)],
              autoIncrement := Suc (autoIncrement t)\<rparr>,
            s\<lparr>ds_documents := newDocument ptTitle ptContent dNow (autoIncrement t) # ds_documents s,
              ds_currentDocument := Some (newDocument ptTitle ptContent dNow (autoIncrement t))\<rparr>) \<and>
         FDMdcModified (newDocument ptTitle ptContent dNow (autoIncrement t)) =
           FDMdcCreated (newDocument ptTitle ptContent dNow (autoIncrement t)) \<and>
         FNMdcSize (newDocument ptTitle ptContent dNow (autoIncrement t)) =
           Some (length (FTMdcContent (newDocument ptTitle ptContent dNow (autoIncrement t))))"
proof -
  let ?k = "autoIncrement t"
  let ?d = "newDocument ptTitle ptContent dNow ?k"
  have fresh: "\<not> list_ex (\<lambda>e. FNMdcId e = Some ?k) (records t)"
    using assms(3) by (rule fresh_key)
  have key: "FNMdcId ?d = Some ?k"
    by (simp add: newDocument_def)
  have found: "find (\<lambda>e. FNMdcId e = Some ?k) (records t @ [?d]) = Some ?d"
    using fresh key by (rule find_fresh)
  have "documentStore_createDocument ptTitle ptContent dNow (t, s) =
           (Inr (), t\<lparr>records := records t @ [?d], autoIncrement := Suc ?k\<rparr>,
            s\<lparr>ds_documents := ?d # ds_documents s, ds_currentDocument := Some ?d\<rparr>)"
    using assms(1,2) fresh found
    by (simp add: documentStore_createDocument_def FSxMDCCreateDocument_def table_add_def
        FSoMDCGetDocumentById_def table_get_def Let_def newDocument_def)
  then show ?thesis
    by (simp add: newDocument_def)
qed

theorem created_document_is_consistent_witness:
  "\<not> failWrites tableA \<and> \<not> failReads tableA \<and> keysBelowGenerator tableA \<and>
   ds_currentDocument (snd (snd (documentStore_createDocument ''T'' ''C'' 30 (tableA, storeA)))) =
     Some (newDocument ''T'' ''C'' 30 3)"
proof -
  have h1: "\<not> failWrites tableA" and h2: "\<not> failReads tableA"
    by (simp_all add: tableA_def)
  have h3: "keysBelowGenerator tableA"
    by (simp add: keysBelowGenerator_def tableA_def doc0_def doc1_def)
  have k: "autoIncrement tableA = 3"
    by (simp add: tableA_def)
  show ?thesis
    using created_document_is_consistent [OF h1 h2 h3, of "''T''" "''C''" 30 storeA] h1 h2 h3 k
    by simp
qed

text \<open>
  \<open>saveCurrentDocument\<close> never rejects, whatever the state and the storage engine, so
  \<open>handleSave\<close> of the tool bar never alerts.
\<close>

theorem save_never_rejects:
  "fst (editorStore_saveCurrentDocument w) = Inr () \<and> alerts (handleSave w) = alerts w"
  using saveCurrentDocument_resolves [of w] handleSave_never_alerts [of w] by simp

text \<open>
  \<open>setContent\<close> replaces the draft and writes nothing to the table.
\<close>

theorem setContent_writes_nothing:
  "db (editorStore_setContent text w) = db w \<and>
   es_content (store (editorStore_setContent text w)) = Some text"
  by (simp add: editorStore_setContent_def setTimeout_def Let_def)

end
